theory Spec2Isabelle
  imports Main "HOL-Library.Sublist" "HOL-Library.AList"
begin

section \<open>Strings and paths\<close>

text \<open>
  State names are JavaScript strings, modelled as \<open>string\<close>. A path is the array of state
  names from the machine root to a node. The source converts between a path and its dotted
  string with \<^verbatim>\<open>path.join(".")\<close> and \<^verbatim>\<open>str.split(".")\<close>; both are written out, so that
  a name containing a dot or the empty path behave as they do in the source
  (\<^verbatim>\<open>[].join(".")\<close> is the empty string and \<^verbatim>\<open>"".split(".")\<close> is \<^verbatim>\<open>[""]\<close>).
\<close>

fun join_dot :: "string list \<Rightarrow> string" where
  "join_dot [] = []"
| "join_dot [x] = x"
| "join_dot (x # y # ys) = x @ CHR ''.'' # join_dot (y # ys)"

fun split_dot :: "string \<Rightarrow> string list" where
  "split_dot [] = [[]]"
| "split_dot (c # cs) =
     (if c = CHR ''.'' then [] # split_dot cs
      else (case split_dot cs of
              [] \<Rightarrow> [[c]]
            | w # ws \<Rightarrow> (c # w) # ws))"

text \<open>
  Insertion-ordered \<^verbatim>\<open>Set<string>\<close>: iterating the set visits each element once, in the
  order of its first insertion.
\<close>

fun set_add :: "'a list \<Rightarrow> 'a \<Rightarrow> 'a list" where
  "set_add xs x = (if x \<in> set xs then xs else xs @ [x])"

section \<open>State values (stateValue.ts)\<close>

text \<open>
  \<^verbatim>\<open>type StateValue = string | StateValueObject | StateValueArray\<close>. A leaf is a string and
  a record is an object whose keys are kept in insertion order (an association list; the
  source never stores a key twice, and state names are assumed not to be canonical array
  indices, which JavaScript would enumerate first). No function of the source builds an array
  from array-free arguments and the runtime starts from \<^verbatim>\<open>getInitialStateValue\<close>, which
  builds none, so the array alternative is left out together with the
  \<^verbatim>\<open>Array.isArray\<close> branches that only it can reach.
\<close>

datatype StateValue = Str string | Obj "(string \<times> StateValue) list"

fun pathToStateValue :: "string list \<Rightarrow> StateValue" where
  "pathToStateValue [] = Str []"
| "pathToStateValue [x] = Str x"
| "pathToStateValue (first # rest) = Obj [(first, pathToStateValue rest)]"

fun stateValueToPaths :: "StateValue \<Rightarrow> string list list" where
  "stateValueToPaths (Str v) = [[v]]"
| "stateValueToPaths (Obj entries) =
     concat (map (\<lambda>(key, childValue).
                    map (\<lambda>childPath. key # childPath) (stateValueToPaths childValue))
                 entries)"

text \<open>\<^verbatim>\<open>pathsMatch\<close>: the test path is not longer and agrees at each of its indices.\<close>

definition pathsMatch :: "string list \<Rightarrow> string list \<Rightarrow> bool" where
  "pathsMatch currentPath testPath =
     (if length testPath > length currentPath then False
      else list_all (\<lambda>i. currentPath ! i = testPath ! i) [0..<length testPath])"

text \<open>
  \<^verbatim>\<open>matchesStateValue(current, test)\<close>. A string test is the \<open>Str\<close> alternative: with a dot it
  is split and compared by \<open>pathsMatch\<close>; without a dot the source asks whether some active
  path \<^verbatim>\<open>includes\<close> the name. A record test is decoded to its paths.
\<close>

definition matchesStateValue :: "StateValue \<Rightarrow> StateValue \<Rightarrow> bool" where
  "matchesStateValue current test =
     (case test of
        Str t \<Rightarrow>
          (if CHR ''.'' \<in> set t then
             (let testPath = split_dot t; currentPaths = stateValueToPaths current
              in list_ex (\<lambda>path. pathsMatch path testPath) currentPaths)
           else
             (let currentPaths = stateValueToPaths current
              in list_ex (\<lambda>path. t \<in> set path) currentPaths))
      | Obj _ \<Rightarrow>
          (let currentPaths = stateValueToPaths current; testPaths = stateValueToPaths test
           in list_all (\<lambda>testPath. list_ex (\<lambda>currentPath. pathsMatch currentPath testPath)
                                           currentPaths)
                       testPaths))"

text \<open>
  \<^verbatim>\<open>deepMergeStateValues(target, source)\<close>: the result starts as a copy of the target and
  the entries of the source are written into it in order; where both sides hold a record the
  two are merged recursively, otherwise the source wins.
\<close>

fun deepMergeStateValues ::
  "(string \<times> StateValue) list \<Rightarrow> (string \<times> StateValue) list \<Rightarrow> (string \<times> StateValue) list" where
  "deepMergeStateValues result [] = result"
| "deepMergeStateValues result ((key, v) # rest) =
     deepMergeStateValues
       (case map_of result key of
          Some targetValue \<Rightarrow>
            (case (targetValue, v) of
               (Obj t, Obj s) \<Rightarrow> AList.update key (Obj (deepMergeStateValues t s)) result
             | _ \<Rightarrow> AList.update key v result)
        | None \<Rightarrow> AList.update key v result)
       rest"

fun mergeLoop :: "(string \<times> StateValue) list \<Rightarrow> StateValue list \<Rightarrow> (string \<times> StateValue) list" where
  "mergeLoop merged [] = merged"
| "mergeLoop merged (Str v # vs) = mergeLoop (AList.update v (Str v) merged) vs"
| "mergeLoop merged (Obj s # vs) = mergeLoop (deepMergeStateValues merged s) vs"

fun is_Str :: "StateValue \<Rightarrow> bool" where
  "is_Str (Str _) = True"
| "is_Str (Obj _) = False"

definition mergeStateValues :: "StateValue list \<Rightarrow> StateValue" where
  "mergeStateValues vals =
     (case vals of
        [] \<Rightarrow> Str []
      | [v] \<Rightarrow> v
      | v # _ \<Rightarrow> (if list_all is_Str vals then v else Obj (mergeLoop [] vals)))"

datatype HistoryMode = Shallow | Deep

text \<open>
  \<^verbatim>\<open>getHistoryValue(historyValue, type)\<close>: deep returns the value itself; shallow maps a
  record with several keys key by key and replaces a record with one key by that key.
\<close>

fun shallowHistory :: "StateValue \<Rightarrow> StateValue" where
  "shallowHistory (Str v) = Str v"
| "shallowHistory (Obj []) = Obj []"
| "shallowHistory (Obj [(key, subValue)]) = Str key"
| "shallowHistory (Obj entries) = Obj (map (\<lambda>(key, subValue). (key, shallowHistory subValue)) entries)"

definition getHistoryValue :: "StateValue \<Rightarrow> HistoryMode \<Rightarrow> StateValue" where
  "getHistoryValue historyValue mode =
     (case mode of Deep \<Rightarrow> historyValue | Shallow \<Rightarrow> shallowHistory historyValue)"

section \<open>Machine definitions (types.ts)\<close>

text \<open>
  An event carries its \<^verbatim>\<open>type\<close>, the \<^verbatim>\<open>key\<close> that a fired timer puts on a
  \<^verbatim>\<open>$delay\<close> event, and whatever else the sender put on it (\<open>edata\<close>, absent on the events
  the runtime synthesises itself).
\<close>

record 'p EventObject =
  etype :: string
  ekey :: "string option"
  edata :: "'p option"

text \<open>
  An action function receives \<^verbatim>\<open>{ context, event, spawn }\<close>, may mutate the context object it
  is given and may return a value (an effect descriptor); it is modelled as a function from the
  context and the event to the context afterwards and the optional return value. A guard is a
  function to \<open>bool\<close>. Guards and actions are taken to return normally, and \<^verbatim>\<open>spawn\<close> is
  outside the embedding. An action or guard definition is a function or an object with a
  \<^verbatim>\<open>type\<close> naming an implementation.
\<close>

type_synonym ('c, 'p, 'x) ActionFunction = "'c \<Rightarrow> 'p EventObject \<Rightarrow> 'c \<times> 'x option"

type_synonym ('c, 'p) GuardFunction = "'c \<Rightarrow> 'p EventObject \<Rightarrow> bool"

datatype ('c, 'p, 'x) ActionDefinition =
  ActionFn "('c, 'p, 'x) ActionFunction"
| ActionRef string

datatype ('c, 'p) GuardDefinition =
  GuardFn "('c, 'p) GuardFunction"
| GuardRef string

datatype ('c, 'p) DelayImpl =
  DelayFn "'c \<Rightarrow> 'p EventObject \<Rightarrow> int"
| DelayNum int

text \<open>
  \<^verbatim>\<open>TransitionConfig\<close>. The \<^verbatim>\<open>actions\<close> field is one definition, an array or absent in the
  source and \<^verbatim>\<open>executeActions\<close> turns all three into an array first; the field holds that
  array.
\<close>

record ('c, 'p, 'x) TransitionConfig =
  target :: "string option"
  actions :: "('c, 'p, 'x) ActionDefinition list"
  guard :: "('c, 'p) GuardDefinition option"

datatype ('c, 'p, 'x) TransitionDefinition =
  TString string
| TConfig "('c, 'p, 'x) TransitionConfig"
| TArray "(string + ('c, 'p, 'x) TransitionConfig) list"

datatype NodeType = Atomic | Compound | Parallel | History

text \<open>
  \<^verbatim>\<open>StateNodeConfig\<close>. Optional fields are options, except \<^verbatim>\<open>entry\<close> and \<^verbatim>\<open>exit\<close>,
  which the source only ever passes to \<^verbatim>\<open>executeActions\<close>, so that an absent field and an
  empty one behave alike. An invocation is kept as its id; the child actor it starts lives
  outside the embedding. State names are part of the configuration and are assumed not to be
  named like members of \<^verbatim>\<open>Object.prototype\<close>; event types and delay keys arrive with the
  events and are not restricted (see \<open>readDefinition\<close> below).
\<close>

datatype ('c, 'p, 'x) StateNodeConfig = StateNodeConfig
  (node_on: "(string \<times> ('c, 'p, 'x) TransitionDefinition) list option")
  (node_after: "(string \<times> ('c, 'p, 'x) TransitionDefinition) list option")
  (node_always: "('c, 'p, 'x) TransitionDefinition option")
  (node_entry: "('c, 'p, 'x) ActionDefinition list")
  (node_exit: "('c, 'p, 'x) ActionDefinition list")
  (node_invoke: "string list option")
  (node_type: "NodeType option")
  (node_history: "HistoryMode option")
  (node_target: "string option")
  (node_initial: "string option")
  (node_states: "(string \<times> ('c, 'p, 'x) StateNodeConfig) list option")

record ('c, 'p, 'x) MachineConfig =
  cfg_initial :: string
  cfg_context :: 'c
  cfg_states :: "(string \<times> ('c, 'p, 'x) StateNodeConfig) list"
  cfg_on :: "(string \<times> ('c, 'p, 'x) TransitionDefinition) list option"

text \<open>
  \<^verbatim>\<open>MachineImplementations\<close>: three tables from names to implementations. A table that is
  absent answers every lookup with \<^verbatim>\<open>undefined\<close>, as the empty table does.
\<close>

record ('c, 'p, 'x) MachineImplementations =
  impl_actions :: "string \<rightharpoonup> ('c, 'p, 'x) ActionFunction"
  impl_guards :: "string \<rightharpoonup> ('c, 'p) GuardFunction"
  impl_delays :: "string \<rightharpoonup> ('c, 'p) DelayImpl"

record ('c, 'p, 'x) Machine =
  config :: "('c, 'p, 'x) MachineConfig"
  initialState :: string
  implementations :: "('c, 'p, 'x) MachineImplementations"

text \<open>JavaScript truthiness of an optional string: present and not empty.\<close>

fun truthy :: "string option \<Rightarrow> bool" where
  "truthy None = False"
| "truthy (Some s) = (s \<noteq> [])"

fun truthyDefinition :: "('c, 'p, 'x) TransitionDefinition option \<Rightarrow> bool" where
  "truthyDefinition None = False"
| "truthyDefinition (Some (TString s)) = (s \<noteq> [])"
| "truthyDefinition (Some _) = True"

fun truthyValue :: "StateValue option \<Rightarrow> bool" where
  "truthyValue None = False"
| "truthyValue (Some (Str s)) = (s \<noteq> [])"
| "truthyValue (Some (Obj _)) = True"

text \<open>
  Reading a transition from an \<^verbatim>\<open>on\<close> or \<^verbatim>\<open>after\<close> map. The source reads
  \<^verbatim>\<open>stateNode.on[event.type]\<close> and tests \<^verbatim>\<open>delayKey in stateNode.after\<close>; both are property
  lookups on a plain object, which find the object's own keys and, failing those, the members
  of \<^verbatim>\<open>Object.prototype\<close>. Such a member is a function or an object: it is truthy, is neither
  an array nor a string, and has no \<^verbatim>\<open>target\<close>, \<^verbatim>\<open>guard\<close> or \<^verbatim>\<open>actions\<close>, so that the
  source takes it for a transition without target, guard and actions. The names are those of
  ECMAScript, Annex B included. An absent map is not read at all.
\<close>

definition objectPrototypeKeys :: "string list" where
  "objectPrototypeKeys =
     [''constructor'', ''hasOwnProperty'', ''isPrototypeOf'', ''propertyIsEnumerable'',
      ''toLocaleString'', ''toString'', ''valueOf'', ''__defineGetter__'', ''__defineSetter__'',
      ''__lookupGetter__'', ''__lookupSetter__'', ''__proto__'']"

definition inheritedDefinition :: "('c, 'p, 'x) TransitionDefinition" where
  "inheritedDefinition = TConfig \<lparr>target = None, actions = [], guard = None\<rparr>"

definition readDefinition ::
  "(string \<times> ('c, 'p, 'x) TransitionDefinition) list option \<Rightarrow> string
   \<Rightarrow> ('c, 'p, 'x) TransitionDefinition option" where
  "readDefinition table key =
     (case table of
        None \<Rightarrow> None
      | Some entries \<Rightarrow>
          (case map_of entries key of
             Some definition \<Rightarrow> Some definition
           | None \<Rightarrow>
               (if key \<in> set objectPrototypeKeys then Some inheritedDefinition else None)))"

section \<open>Transition logic (transition.ts)\<close>

definition resolveAction ::
  "('c, 'p, 'x) ActionDefinition \<Rightarrow> ('c, 'p, 'x) MachineImplementations
   \<Rightarrow> ('c, 'p, 'x) ActionFunction option" where
  "resolveAction action impls =
     (case action of
        ActionFn f \<Rightarrow> Some f
      | ActionRef t \<Rightarrow> (if t \<noteq> [] then impl_actions impls t else None))"

definition resolveGuard ::
  "('c, 'p) GuardDefinition \<Rightarrow> ('c, 'p, 'x) MachineImplementations
   \<Rightarrow> ('c, 'p) GuardFunction option" where
  "resolveGuard g impls =
     (case g of
        GuardFn f \<Rightarrow> Some f
      | GuardRef t \<Rightarrow> (if t \<noteq> [] then impl_guards impls t else None))"

text \<open>
  \<^verbatim>\<open>executeActions\<close> runs the resolved actions in list order on one context object and
  collects the return values that are not \<^verbatim>\<open>undefined\<close>. The model returns the context
  after the last action together with the collected values.
\<close>

fun executeActions ::
  "('c, 'p, 'x) ActionDefinition list \<Rightarrow> 'c \<Rightarrow> 'p EventObject
   \<Rightarrow> ('c, 'p, 'x) MachineImplementations \<Rightarrow> 'c \<times> 'x list" where
  "executeActions [] ctx event impls = (ctx, [])"
| "executeActions (action # actionList) ctx event impls =
     (case resolveAction action impls of
        Some actionFn \<Rightarrow>
          (case actionFn ctx event of
             (ctx', result) \<Rightarrow>
               (case executeActions actionList ctx' event impls of
                  (ctx'', results) \<Rightarrow>
                    (ctx'', (case result of Some r \<Rightarrow> [r] | None \<Rightarrow> []) @ results)))
      | None \<Rightarrow> executeActions actionList ctx event impls)"

definition evaluateGuard ::
  "('c, 'p) GuardDefinition option \<Rightarrow> 'c \<Rightarrow> 'p EventObject
   \<Rightarrow> ('c, 'p, 'x) MachineImplementations \<Rightarrow> bool" where
  "evaluateGuard g ctx event impls =
     (case g of
        None \<Rightarrow> True
      | Some gd \<Rightarrow>
          (case resolveGuard gd impls of
             None \<Rightarrow> True
           | Some guardFn \<Rightarrow> guardFn ctx event))"

definition getChild ::
  "('c, 'p, 'x) StateNodeConfig \<Rightarrow> string \<Rightarrow> ('c, 'p, 'x) StateNodeConfig option" where
  "getChild current name =
     (case node_states current of
        None \<Rightarrow> None
      | Some children \<Rightarrow> map_of children name)"

fun descend ::
  "('c, 'p, 'x) StateNodeConfig \<Rightarrow> string list \<Rightarrow> ('c, 'p, 'x) StateNodeConfig option" where
  "descend current [] = Some current"
| "descend current (name # rest) =
     (case getChild current name of
        None \<Rightarrow> None
      | Some child \<Rightarrow> descend child rest)"

definition getStateNodeByPath ::
  "('c, 'p, 'x) Machine \<Rightarrow> string list \<Rightarrow> ('c, 'p, 'x) StateNodeConfig option" where
  "getStateNodeByPath machine path =
     (case path of
        [] \<Rightarrow> None
      | name # rest \<Rightarrow>
          (case map_of (cfg_states (config machine)) name of
             None \<Rightarrow> None
           | Some current \<Rightarrow> descend current rest))"

fun collectNodes ::
  "('c, 'p, 'x) StateNodeConfig \<Rightarrow> string list \<Rightarrow> ('c, 'p, 'x) StateNodeConfig list" where
  "collectNodes current [] = []"
| "collectNodes current (name # rest) =
     (case getChild current name of
        None \<Rightarrow> []
      | Some child \<Rightarrow> child # collectNodes child rest)"

definition getStateNodesInPath ::
  "('c, 'p, 'x) Machine \<Rightarrow> string list \<Rightarrow> ('c, 'p, 'x) StateNodeConfig list" where
  "getStateNodesInPath machine path =
     (case path of
        [] \<Rightarrow> []
      | name # rest \<Rightarrow>
          (case map_of (cfg_states (config machine)) name of
             None \<Rightarrow> []
           | Some current \<Rightarrow> current # collectNodes current rest))"

definition normalizeTransitionDefinition ::
  "('c, 'p, 'x) TransitionDefinition \<Rightarrow> ('c, 'p, 'x) TransitionConfig list" where
  "normalizeTransitionDefinition definition =
     (case definition of
        TArray ds \<Rightarrow>
          map (\<lambda>d. case d of
                      Inl s \<Rightarrow> \<lparr>target = Some s, actions = [], guard = None\<rparr>
                    | Inr c \<Rightarrow> c) ds
      | TString s \<Rightarrow> [\<lparr>target = Some s, actions = [], guard = None\<rparr>]
      | TConfig c \<Rightarrow> [c])"

fun firstValid ::
  "('c, 'p, 'x) TransitionConfig list \<Rightarrow> 'c \<Rightarrow> 'p EventObject
   \<Rightarrow> ('c, 'p, 'x) MachineImplementations \<Rightarrow> ('c, 'p, 'x) TransitionConfig option" where
  "firstValid [] ctx event impls = None"
| "firstValid (transition # transitions) ctx event impls =
     (if evaluateGuard (guard transition) ctx event impls then Some transition
      else firstValid transitions ctx event impls)"

definition findValidTransition ::
  "('c, 'p, 'x) TransitionDefinition \<Rightarrow> 'c \<Rightarrow> 'p EventObject
   \<Rightarrow> ('c, 'p, 'x) MachineImplementations \<Rightarrow> ('c, 'p, 'x) TransitionConfig option" where
  "findValidTransition definition ctx event impls =
     firstValid (normalizeTransitionDefinition definition) ctx event impls"

text \<open>
  The three lookups that the body of the loop in \<^verbatim>\<open>findTransitionInPath\<close> makes at one
  state node, in the order of the source: the \<^verbatim>\<open>always\<close> definition, the \<^verbatim>\<open>on\<close> entry for
  the event type, and, for a \<^verbatim>\<open>$delay\<close> event, the \<^verbatim>\<open>after\<close> entry for the event's key.
\<close>

definition alwaysCandidate ::
  "('c, 'p, 'x) StateNodeConfig option \<Rightarrow> 'c \<Rightarrow> 'p EventObject
   \<Rightarrow> ('c, 'p, 'x) MachineImplementations \<Rightarrow> ('c, 'p, 'x) TransitionConfig option" where
  "alwaysCandidate stateNode ctx event impls =
     (case stateNode of
        None \<Rightarrow> None
      | Some node \<Rightarrow>
          (case node_always node of
             None \<Rightarrow> None
           | Some definition \<Rightarrow>
               (if truthyDefinition (Some definition)
                then findValidTransition definition ctx event impls else None)))"

definition onCandidate ::
  "('c, 'p, 'x) StateNodeConfig option \<Rightarrow> 'c \<Rightarrow> 'p EventObject
   \<Rightarrow> ('c, 'p, 'x) MachineImplementations \<Rightarrow> ('c, 'p, 'x) TransitionConfig option" where
  "onCandidate stateNode ctx event impls =
     (case stateNode of
        None \<Rightarrow> None
      | Some node \<Rightarrow>
          (case readDefinition (node_on node) (etype event) of
             None \<Rightarrow> None
           | Some definition \<Rightarrow>
               (if truthyDefinition (Some definition)
                then findValidTransition definition ctx event impls else None)))"

definition afterCandidate ::
  "('c, 'p, 'x) StateNodeConfig option \<Rightarrow> 'c \<Rightarrow> 'p EventObject
   \<Rightarrow> ('c, 'p, 'x) MachineImplementations \<Rightarrow> ('c, 'p, 'x) TransitionConfig option" where
  "afterCandidate stateNode ctx event impls =
     (case stateNode of
        None \<Rightarrow> None
      | Some node \<Rightarrow>
          (if etype event = ''$delay'' then
             (case ekey event of
                None \<Rightarrow> None
              | Some delayKey \<Rightarrow>
                  (case readDefinition (node_after node) delayKey of
                     None \<Rightarrow> None
                   | Some definition \<Rightarrow> findValidTransition definition ctx event impls))
           else None))"

text \<open>
  \<^verbatim>\<open>findTransitionInPath\<close>: the loop \<^verbatim>\<open>for (let i = path.length; i > 0; i--)\<close>, from the
  leaf to the root; the last argument of \<open>findTransitionLoop\<close> is \<open>i\<close>.
\<close>

fun findTransitionLoop ::
  "('c, 'p, 'x) Machine \<Rightarrow> string list \<Rightarrow> 'p EventObject \<Rightarrow> 'c
   \<Rightarrow> ('c, 'p, 'x) MachineImplementations \<Rightarrow> nat
   \<Rightarrow> (('c, 'p, 'x) TransitionConfig \<times> string list) option" where
  "findTransitionLoop machine path event ctx impls 0 = None"
| "findTransitionLoop machine path event ctx impls (Suc n) =
     (let currentPath = take (Suc n) path;
          stateNode = getStateNodeByPath machine currentPath
      in case alwaysCandidate stateNode ctx event impls of
           Some transition \<Rightarrow> Some (transition, currentPath)
         | None \<Rightarrow>
             (case onCandidate stateNode ctx event impls of
                Some transition \<Rightarrow> Some (transition, currentPath)
              | None \<Rightarrow>
                  (case afterCandidate stateNode ctx event impls of
                     Some transition \<Rightarrow> Some (transition, currentPath)
                   | None \<Rightarrow> findTransitionLoop machine path event ctx impls n)))"

definition findTransitionInPath ::
  "('c, 'p, 'x) Machine \<Rightarrow> string list \<Rightarrow> 'p EventObject \<Rightarrow> 'c
   \<Rightarrow> ('c, 'p, 'x) MachineImplementations
   \<Rightarrow> (('c, 'p, 'x) TransitionConfig \<times> string list) option" where
  "findTransitionInPath machine path event ctx impls =
     findTransitionLoop machine path event ctx impls (length path)"

lemma map_of_size_child:
  "map_of children name = Some child
   \<Longrightarrow> size child < Suc (size_list (size_prod (\<lambda>_. 0) size) children)"
  by (induction children) (auto split: if_splits)

lemma set_size_child:
  "(name, child) \<in> set children
   \<Longrightarrow> size child < Suc (size_list (size_prod (\<lambda>_. 0) size) children)"
  by (induction children) auto

lemma getChild_size: "getChild current name = Some child \<Longrightarrow> size child < size current"
  by (cases current) (auto simp: getChild_def split: option.splits dest: map_of_size_child)

text \<open>
  \<^verbatim>\<open>resolveInitialState\<close>: the loop \<^verbatim>\<open>while (current.initial && current.states)\<close> follows
  \<^verbatim>\<open>initial\<close> downwards and stops when the named child does not exist.
\<close>

function resolveInitialState ::
  "('c, 'p, 'x) StateNodeConfig \<Rightarrow> string list \<Rightarrow> string list" where
  "resolveInitialState current path =
     (case node_initial current of
        None \<Rightarrow> path
      | Some i \<Rightarrow>
          (if i \<noteq> [] \<and> node_states current \<noteq> None then
             (case getChild current i of
                None \<Rightarrow> path @ [i]
              | Some child \<Rightarrow> resolveInitialState child (path @ [i]))
           else path))"
  by pat_completeness auto
termination
  by (relation "measure (\<lambda>(current, path). size current)") (auto dest: getChild_size)

declare resolveInitialState.simps [simp del]

text \<open>
  \<^verbatim>\<open>getInitialStateValue\<close>. For a parallel initial state each region contributes the value of
  its own initial path, or its own key when it has no initial child.
\<close>

definition getInitialStateValue :: "('c, 'p, 'x) Machine \<Rightarrow> StateValue" where
  "getInitialStateValue machine =
     (case map_of (cfg_states (config machine)) (initialState machine) of
        None \<Rightarrow> Str (initialState machine)
      | Some initialNode \<Rightarrow>
          (case (node_type initialNode, node_states initialNode) of
             (Some Parallel, Some children) \<Rightarrow>
               Obj [(initialState machine,
                     Obj (map (\<lambda>(key, childState).
                                 (key,
                                  if truthy (node_initial childState) \<and> node_states childState \<noteq> None
                                  then pathToStateValue (resolveInitialState childState [])
                                  else Str key))
                              children))]
           | _ \<Rightarrow> pathToStateValue (resolveInitialState initialNode [initialState machine])))"

fun getValueAtPath :: "StateValue \<Rightarrow> string list \<Rightarrow> StateValue option" where
  "getValueAtPath current [] = Some current"
| "getValueAtPath current (key # rest) =
     (case current of
        Str _ \<Rightarrow> None
      | Obj entries \<Rightarrow>
          (case map_of entries key of
             None \<Rightarrow> None
           | Some sub \<Rightarrow> getValueAtPath sub rest))"

fun wrapValueInPath :: "string list \<Rightarrow> StateValue \<Rightarrow> StateValue" where
  "wrapValueInPath [] v = v"
| "wrapValueInPath (first # rest) v = Obj [(first, wrapValueInPath rest v)]"

text \<open>A node without children: \<^verbatim>\<open>!stateNode.states || Object.keys(stateNode.states).length === 0\<close>.\<close>

definition noChildren :: "('c, 'p, 'x) StateNodeConfig \<Rightarrow> bool" where
  "noChildren stateNode = (case node_states stateNode of None \<Rightarrow> True | Some children \<Rightarrow> children = [])"

text \<open>
  A dotted target is split into segments; it is absolute when the first segment names a
  top-level state of the machine and is otherwise appended to the given parent path. Both
  \<^verbatim>\<open>computeTransition\<close> and the default target of a history node decide this way.
  \<^verbatim>\<open>split\<close> never returns the empty array.
\<close>

definition targetSegmentsToPath ::
  "('c, 'p, 'x) Machine \<Rightarrow> string list \<Rightarrow> string list \<Rightarrow> string list" where
  "targetSegmentsToPath machine parentPath targetSegments =
     (case targetSegments of
        [] \<Rightarrow> parentPath
      | first # _ \<Rightarrow>
          (if map_of (cfg_states (config machine)) first \<noteq> None then targetSegments
           else parentPath @ targetSegments))"

text \<open>
  \<^verbatim>\<open>recursiveResolve\<close> and \<^verbatim>\<open>resolveTarget\<close> call each other. Into a child node the recursion
  is structural. Through a history node without a stored value it restarts from a path looked
  up in the whole machine (the default target, or the parent's initial child), and a
  configuration may lead such a restart back to the same history node, where the source
  recurses until the engine's call stack is exhausted. The first argument bounds the number of
  nested restarts; \<open>None\<close> is the exception raised when the bound is exceeded. Only restarts
  consume it.
\<close>

function recursiveResolve ::
  "nat \<Rightarrow> ('c, 'p, 'x) Machine \<Rightarrow> ('c, 'p, 'x) StateNodeConfig \<Rightarrow> string list
   \<Rightarrow> (string \<times> StateValue) list \<Rightarrow> StateValue option"
and resolveTarget ::
  "nat \<Rightarrow> ('c, 'p, 'x) Machine \<Rightarrow> string list
   \<Rightarrow> (string \<times> StateValue) list \<Rightarrow> StateValue option"
where
  "recursiveResolve depth machine stateNode path historyValue =
     (let parentPath = butlast path;
          history = map_of historyValue (join_dot parentPath);
          parentNode = getStateNodeByPath machine parentPath;
          parentInitial = (case parentNode of None \<Rightarrow> None | Some pn \<Rightarrow> node_initial pn)
      in
      if node_type stateNode = Some History \<and> truthyValue history then
        (case history of
           None \<Rightarrow> None
         | Some h \<Rightarrow>
             Some (wrapValueInPath parentPath
                     (getHistoryValue h (if node_history stateNode = Some Deep then Deep else Shallow))))
      else if node_type stateNode = Some History \<and> truthy (node_target stateNode) then
        (case (node_target stateNode, depth) of
           (Some t, Suc depth') \<Rightarrow>
             resolveTarget depth' machine (targetSegmentsToPath machine parentPath (split_dot t))
               historyValue
         | _ \<Rightarrow> None)
      else if node_type stateNode = Some History \<and> truthy parentInitial then
        (case (parentInitial, depth) of
           (Some i, Suc depth') \<Rightarrow> resolveTarget depth' machine (parentPath @ [i]) historyValue
         | _ \<Rightarrow> None)
      else if noChildren stateNode then Some (pathToStateValue path)
      else if node_type stateNode = Some Parallel then
        (case node_states stateNode of
           None \<Rightarrow> Some (mergeStateValues [])
         | Some children \<Rightarrow>
             map_option mergeStateValues
               (those (map (\<lambda>entry. recursiveResolve depth machine (snd entry) (path @ [fst entry])
                                      historyValue)
                           children)))
      else
        (case node_initial stateNode of
           None \<Rightarrow> Some (pathToStateValue path)
         | Some i \<Rightarrow>
             (if i \<noteq> [] then
                (case getChild stateNode i of
                   None \<Rightarrow> Some (pathToStateValue path)
                 | Some initialNode \<Rightarrow>
                     recursiveResolve depth machine initialNode (path @ [i]) historyValue)
              else Some (pathToStateValue path))))"
| "resolveTarget depth machine targetPath historyValue =
     (case getStateNodeByPath machine targetPath of
        None \<Rightarrow> Some (pathToStateValue targetPath)
      | Some stateNode \<Rightarrow> recursiveResolve depth machine stateNode targetPath historyValue)"
  by pat_completeness auto

lemma states_size_child:
  "node_states stateNode = Some children \<Longrightarrow> entry \<in> set children
   \<Longrightarrow> size (snd entry) < size stateNode"
  by (cases stateNode; cases entry) (auto dest: set_size_child)

termination recursiveResolve
  by (relation "inv_image (less_than <*lex*> less_than)
        (\<lambda>x. case x of
                Inl (depth, machine, stateNode, path, historyValue) \<Rightarrow> (2 * depth, size stateNode)
              | Inr (depth, machine, targetPath, historyValue) \<Rightarrow> (2 * depth + 1, 0))")
     (auto dest: getChild_size states_size_child)

declare recursiveResolve.simps [simp del] resolveTarget.simps [simp del]

text \<open>Object spread \<^verbatim>\<open>{ ...a, ...b }\<close>: the entries of \<open>b\<close> are written into a copy of \<open>a\<close>.\<close>

definition spread :: "(string \<times> 'v) list \<Rightarrow> (string \<times> 'v) list \<Rightarrow> (string \<times> 'v) list" where
  "spread a b = fold (\<lambda>(k, v) acc. AList.update k v acc) b a"

text \<open>
  The regions of a parallel node that the value lacks, each resolved and then read back
  relative to the region's own path (the inner loop of \<^verbatim>\<open>fillParallelStates\<close>).
\<close>

fun missingRegions ::
  "nat \<Rightarrow> ('c, 'p, 'x) Machine \<Rightarrow> (string \<times> ('c, 'p, 'x) StateNodeConfig) list
   \<Rightarrow> (string \<times> StateValue) list \<Rightarrow> string list \<Rightarrow> (string \<times> StateValue) list
   \<Rightarrow> (string \<times> StateValue) list option" where
  "missingRegions depth machine [] currentSubValue nodePath historyValue = Some []"
| "missingRegions depth machine ((regionKey, regionNode) # regions) currentSubValue nodePath historyValue =
     (if map_of currentSubValue regionKey \<noteq> None then
        missingRegions depth machine regions currentSubValue nodePath historyValue
      else
        (let regionPath = nodePath @ [regionKey]
         in case recursiveResolve depth machine regionNode regionPath historyValue of
              None \<Rightarrow> None
            | Some resolved \<Rightarrow>
                (case missingRegions depth machine regions currentSubValue nodePath historyValue of
                   None \<Rightarrow> None
                 | Some others \<Rightarrow>
                     (case getValueAtPath resolved regionPath of
                        None \<Rightarrow> Some others
                      | Some relative \<Rightarrow> Some ((regionKey, relative) # others)))))"

text \<open>
  \<^verbatim>\<open>fillParallelStates\<close>. \<open>fillLoop\<close> is its loop over \<^verbatim>\<open>Object.entries(result)\<close>: the
  entries are those of the value as it was passed in, and \<open>result\<close> is the copy that the loop
  rewrites key by key. The recursion descends the tree of state nodes.
\<close>

function fillParallelStates ::
  "nat \<Rightarrow> ('c, 'p, 'x) Machine \<Rightarrow> (string \<times> ('c, 'p, 'x) StateNodeConfig) list
   \<Rightarrow> StateValue \<Rightarrow> string list \<Rightarrow> (string \<times> StateValue) list \<Rightarrow> StateValue option"
and fillLoop ::
  "nat \<Rightarrow> ('c, 'p, 'x) Machine \<Rightarrow> (string \<times> ('c, 'p, 'x) StateNodeConfig) list
   \<Rightarrow> (string \<times> StateValue) list \<Rightarrow> (string \<times> StateValue) list \<Rightarrow> string list
   \<Rightarrow> (string \<times> StateValue) list \<Rightarrow> (string \<times> StateValue) list option"
where
  "fillParallelStates depth machine nodes v path historyValue =
     (case v of
        Str _ \<Rightarrow> Some v
      | Obj entries \<Rightarrow>
          (case fillLoop depth machine nodes entries entries path historyValue of
             None \<Rightarrow> None
           | Some result \<Rightarrow> Some (Obj result)))"
| "fillLoop depth machine nodes result [] path historyValue = Some result"
| "fillLoop depth machine nodes result ((key, subValue) # rest) path historyValue =
     (case map_of nodes key of
        None \<Rightarrow> fillLoop depth machine nodes result rest path historyValue
      | Some node \<Rightarrow>
          (case (case (node_type node, node_states node, subValue) of
                   (Some Parallel, Some regions, Obj currentSubValue) \<Rightarrow>
                     (case missingRegions depth machine regions currentSubValue (path @ [key])
                             historyValue of
                        None \<Rightarrow> None
                      | Some missing \<Rightarrow>
                          Some (if missing \<noteq> []
                                then AList.update key (Obj (spread currentSubValue missing)) result
                                else result))
                 | _ \<Rightarrow> Some result) of
             None \<Rightarrow> None
           | Some result1 \<Rightarrow>
               (case map_of result1 key of
                  None \<Rightarrow> fillLoop depth machine nodes result1 rest path historyValue
                | Some current \<Rightarrow>
                    (case fillParallelStates depth machine
                            (case node_states node of None \<Rightarrow> [] | Some children \<Rightarrow> children)
                            current (path @ [key]) historyValue of
                       None \<Rightarrow> None
                     | Some filled \<Rightarrow>
                         fillLoop depth machine nodes (AList.update key filled result1) rest path
                           historyValue))))"
  by pat_completeness auto

lemma children_size:
  "map_of nodes key = Some node
   \<Longrightarrow> size_list (size_prod (\<lambda>_. 0) size) (case node_states node of None \<Rightarrow> [] | Some children \<Rightarrow> children)
       < size_list (size_prod (\<lambda>_. 0) size) nodes"
  by (drule map_of_size_child, cases node) (auto split: option.splits)

termination fillParallelStates
  by (relation "inv_image (less_than <*lex*> less_than <*lex*> less_than)
        (\<lambda>x. case x of
                Inl (depth, machine, nodes, v, path, historyValue) \<Rightarrow>
                  (size_list (size_prod (\<lambda>_. 0) size) nodes, 1, 0)
              | Inr (depth, machine, nodes, result, todo, path, historyValue) \<Rightarrow>
                  (size_list (size_prod (\<lambda>_. 0) size) nodes, 0, length todo))")
     (auto dest: children_size)

declare fillParallelStates.simps [simp del] fillLoop.simps [simp del]

definition completeStateValue ::
  "nat \<Rightarrow> ('c, 'p, 'x) Machine \<Rightarrow> StateValue \<Rightarrow> (string \<times> StateValue) list
   \<Rightarrow> StateValue option" where
  "completeStateValue depth machine stateValue historyValue =
     fillParallelStates depth machine (cfg_states (config machine)) stateValue [] historyValue"

record ('c, 'x) TransitionResult =
  nextState :: StateValue
  nextContext :: 'c
  changed :: bool
  effects :: "'x list option"
  res_history :: "(string \<times> StateValue) list option"

text \<open>
  The LCA loop of \<^verbatim>\<open>computeTransition\<close> advances \<^verbatim>\<open>lcaIndex\<close> while both paths have a
  segment at that index and the two segments agree: the length of the common prefix.
\<close>

fun commonPrefixLength :: "string list \<Rightarrow> string list \<Rightarrow> nat" where
  "commonPrefixLength (x # xs) (y # ys) = (if x = y then Suc (commonPrefixLength xs ys) else 0)"
| "commonPrefixLength _ _ = 0"

text \<open>
  \<^verbatim>\<open>p.slice(0, lcaIndex).every((seg, i) => seg === lcaPath[i])\<close>; an index beyond
  \<^verbatim>\<open>lcaPath\<close> reads \<^verbatim>\<open>undefined\<close>, which equals no segment.
\<close>

definition sliceEvery :: "string list \<Rightarrow> nat \<Rightarrow> string list \<Rightarrow> bool" where
  "sliceEvery p lcaIndex lcaPath =
     list_all (\<lambda>i. i < length lcaPath \<and> p ! i = lcaPath ! i) [0..<min lcaIndex (length p)]"

definition affectedPath :: "nat \<Rightarrow> string list \<Rightarrow> string list \<Rightarrow> bool" where
  "affectedPath lcaIndex lcaPath p = (length p \<ge> lcaIndex \<and> sliceEvery p lcaIndex lcaPath)"

definition unaffectedPath :: "nat \<Rightarrow> string list \<Rightarrow> string list \<Rightarrow> bool" where
  "unaffectedPath lcaIndex lcaPath p = (length p < lcaIndex \<or> \<not> sliceEvery p lcaIndex lcaPath)"

text \<open>
  History capture: the dotted strings of every prefix of every affected path, down to and
  including length \<^verbatim>\<open>lcaIndex\<close>, in an insertion-ordered set; then, for each that names a node
  with children, the current value below that path is stored under the string.
\<close>

definition exitedPathsSet :: "nat \<Rightarrow> string list list \<Rightarrow> string list" where
  "exitedPathsSet lcaIndex affectedCurrentPaths =
     fold (\<lambda>p acc. fold (\<lambda>i acc'. set_add acc' (join_dot (take i p)))
                         (rev [lcaIndex..<Suc (length p)]) acc)
          affectedCurrentPaths []"

definition hasChildrenKind :: "('c, 'p, 'x) StateNodeConfig \<Rightarrow> bool" where
  "hasChildrenKind stateNode =
     (node_type stateNode = Some Compound \<or> node_type stateNode = Some Parallel \<or> \<not> noChildren stateNode)"

definition captureHistory ::
  "('c, 'p, 'x) Machine \<Rightarrow> StateValue \<Rightarrow> (string \<times> StateValue) list \<Rightarrow> string list
   \<Rightarrow> (string \<times> StateValue) list" where
  "captureHistory machine currentState historyValue exited =
     fold (\<lambda>pathStr newHistoryValue.
             (let path = split_dot pathStr
              in case getStateNodeByPath machine path of
                   None \<Rightarrow> newHistoryValue
                 | Some stateNode \<Rightarrow>
                     (if hasChildrenKind stateNode then
                        (case getValueAtPath currentState path of
                           None \<Rightarrow> newHistoryValue
                         | Some val \<Rightarrow> AList.update pathStr val newHistoryValue)
                      else newHistoryValue)))
          exited historyValue"

text \<open>
  Collecting the nodes to exit and to enter. \<open>visitNode\<close> is the body shared by the two inner
  loops: a prefix whose dotted string was not visited yet is marked, and when a node exists at
  it, \<^verbatim>\<open>{ path, config }\<close> is pushed. For exits the prefixes of a path are walked from its
  full length down to \<^verbatim>\<open>lcaIndex + 1\<close>, for entries from \<^verbatim>\<open>lcaIndex + 1\<close> up. The arrays are
  then sorted by path length with \<^verbatim>\<open>Array.prototype.sort\<close>, which is stable.
\<close>

definition visitNode ::
  "('c, 'p, 'x) Machine \<Rightarrow> string list
   \<Rightarrow> string list \<times> (string list \<times> ('c, 'p, 'x) StateNodeConfig) list
   \<Rightarrow> string list \<times> (string list \<times> ('c, 'p, 'x) StateNodeConfig) list" where
  "visitNode machine subPath acc =
     (case acc of
        (visited, nodes) \<Rightarrow>
          (let pathStr = join_dot subPath
           in if pathStr \<in> set visited then (visited, nodes)
              else (visited @ [pathStr],
                    (case getStateNodeByPath machine subPath of
                       None \<Rightarrow> nodes
                     | Some node \<Rightarrow> nodes @ [(subPath, node)]))))"

definition collectExitNodes ::
  "('c, 'p, 'x) Machine \<Rightarrow> nat \<Rightarrow> string list list
   \<Rightarrow> (string list \<times> ('c, 'p, 'x) StateNodeConfig) list" where
  "collectExitNodes machine lcaIndex affectedCurrentPaths =
     snd (fold (\<lambda>p acc. fold (\<lambda>i. visitNode machine (take i p))
                              (rev [Suc lcaIndex..<Suc (length p)]) acc)
               affectedCurrentPaths ([], []))"

definition collectEnterNodes ::
  "('c, 'p, 'x) Machine \<Rightarrow> nat \<Rightarrow> string list list
   \<Rightarrow> (string list \<times> ('c, 'p, 'x) StateNodeConfig) list" where
  "collectEnterNodes machine lcaIndex affectedNextPaths =
     snd (fold (\<lambda>p acc. fold (\<lambda>i. visitNode machine (take i p))
                              [Suc lcaIndex..<Suc (length p)] acc)
               affectedNextPaths ([], []))"

definition sortDeepestFirst ::
  "(string list \<times> 'n) list \<Rightarrow> (string list \<times> 'n) list" where
  "sortDeepestFirst nodes = sort_key (\<lambda>a. - int (length (fst a))) nodes"

definition sortShallowestFirst ::
  "(string list \<times> 'n) list \<Rightarrow> (string list \<times> 'n) list" where
  "sortShallowestFirst nodes = sort_key (\<lambda>a. length (fst a)) nodes"

text \<open>
  Running a sequence of action lists on the one context object, each through
  \<^verbatim>\<open>executeActions\<close>, and pushing the results onto \<^verbatim>\<open>effects\<close>.
\<close>

fun runActionLists ::
  "('c, 'p, 'x) ActionDefinition list list \<Rightarrow> 'c \<Rightarrow> 'p EventObject
   \<Rightarrow> ('c, 'p, 'x) MachineImplementations \<Rightarrow> 'c \<times> 'x list" where
  "runActionLists [] ctx event impls = (ctx, [])"
| "runActionLists (acts # rest) ctx event impls =
     (case executeActions acts ctx event impls of
        (ctx', res) \<Rightarrow>
          (case runActionLists rest ctx' event impls of
             (ctx'', res') \<Rightarrow> (ctx'', res @ res')))"

text \<open>
  The branch of \<^verbatim>\<open>computeTransition\<close> taken when \<^verbatim>\<open>findTransitionInPath\<close> found a transition
  at \<open>fromPath\<close>. Its local values \<^verbatim>\<open>fullTargetPath\<close>, \<^verbatim>\<open>lcaIndex\<close>, \<^verbatim>\<open>nodesToExit\<close> and
  \<^verbatim>\<open>nodesToEnter\<close> are named as functions of what they are computed from. \<open>fromPath\<close> is
  never empty there, so that \<^verbatim>\<open>lcaIndex--\<close> stays at or above zero.
\<close>

definition fullTargetPathOf ::
  "('c, 'p, 'x) Machine \<Rightarrow> ('c, 'p, 'x) TransitionConfig \<Rightarrow> string list \<Rightarrow> string list" where
  "fullTargetPathOf machine transition fromPath =
     (if truthy (target transition)
      then (case target transition of
              None \<Rightarrow> fromPath
            | Some t \<Rightarrow> targetSegmentsToPath machine (butlast fromPath) (split_dot t))
      else fromPath)"

definition lcaIndexOf :: "string list \<Rightarrow> string list \<Rightarrow> nat" where
  "lcaIndexOf fromPath fullTargetPath =
     (let commonLength = commonPrefixLength fromPath fullTargetPath
      in if commonLength = length fromPath then commonLength - 1 else commonLength)"

definition nodesToExitOf ::
  "('c, 'p, 'x) Machine \<Rightarrow> nat \<Rightarrow> string list \<Rightarrow> string list list
   \<Rightarrow> (string list \<times> ('c, 'p, 'x) StateNodeConfig) list" where
  "nodesToExitOf machine lcaIndex fromPath currentPaths =
     (let lcaPath = take lcaIndex fromPath;
          affectedCurrentPaths = filter (affectedPath lcaIndex lcaPath) currentPaths
      in sortDeepestFirst (collectExitNodes machine lcaIndex affectedCurrentPaths))"

definition nodesToEnterOf ::
  "('c, 'p, 'x) Machine \<Rightarrow> nat \<Rightarrow> string list \<Rightarrow> string list list
   \<Rightarrow> (string list \<times> ('c, 'p, 'x) StateNodeConfig) list" where
  "nodesToEnterOf machine lcaIndex fromPath nextPaths =
     (let lcaPath = take lcaIndex fromPath;
          affectedNextPaths = filter (affectedPath lcaIndex lcaPath) nextPaths
      in sortShallowestFirst (collectEnterNodes machine lcaIndex affectedNextPaths))"

definition applyTransition ::
  "nat \<Rightarrow> ('c, 'p, 'x) Machine \<Rightarrow> StateValue \<Rightarrow> 'c \<Rightarrow> 'p EventObject
   \<Rightarrow> (string \<times> StateValue) list \<Rightarrow> string list list
   \<Rightarrow> ('c, 'p, 'x) TransitionConfig \<Rightarrow> string list
   \<Rightarrow> ('c, 'x) TransitionResult option" where
  "applyTransition depth machine currentState currentContext event historyValue currentPaths
                   transition fromPath =
     (let fullTargetPath = fullTargetPathOf machine transition fromPath;
          lcaIndex = lcaIndexOf fromPath fullTargetPath
      in case resolveTarget depth machine fullTargetPath historyValue of
           None \<Rightarrow> None
         | Some nextStateValue \<Rightarrow>
             (let nextPaths = stateValueToPaths nextStateValue;
                  lcaPath = take lcaIndex fromPath;
                  affectedCurrentPaths = filter (affectedPath lcaIndex lcaPath) currentPaths;
                  newHistoryValue =
                    captureHistory machine currentState historyValue
                      (exitedPathsSet lcaIndex affectedCurrentPaths);
                  nodesToExit = nodesToExitOf machine lcaIndex fromPath currentPaths;
                  afterExit = runActionLists (map (\<lambda>n. node_exit (snd n)) nodesToExit)
                                currentContext event (implementations machine);
                  afterTransition = executeActions (actions transition) (fst afterExit) event
                                      (implementations machine);
                  nodesToEnter = nodesToEnterOf machine lcaIndex fromPath nextPaths;
                  afterEntry = runActionLists (map (\<lambda>n. node_entry (snd n)) nodesToEnter)
                                 (fst afterTransition) event (implementations machine);
                  unaffectedPaths = filter (unaffectedPath lcaIndex lcaPath) currentPaths;
                  unaffectedStateValues = map pathToStateValue unaffectedPaths;
                  finalState = mergeStateValues (unaffectedStateValues @ [nextStateValue])
              in case completeStateValue depth machine finalState newHistoryValue of
                   None \<Rightarrow> None
                 | Some completedState \<Rightarrow>
                     Some \<lparr>nextState = completedState,
                           nextContext = fst afterEntry,
                           changed = True,
                           effects = Some (snd afterExit @ snd afterTransition @ snd afterEntry),
                           res_history = Some newHistoryValue\<rparr>))"

text \<open>
  The branch for global transitions (the root-level \<^verbatim>\<open>on\<close> map), tried when no active path
  yields a transition; a global transition without a target is not taken.
\<close>

definition globalTransition ::
  "('c, 'p, 'x) Machine \<Rightarrow> 'c \<Rightarrow> 'p EventObject \<Rightarrow> string list list
   \<Rightarrow> ('c, 'x) TransitionResult option" where
  "globalTransition machine currentContext event currentPaths =
     (case readDefinition (cfg_on (config machine)) (etype event) of
        None \<Rightarrow> None
      | Some definition \<Rightarrow>
          (if truthyDefinition (Some definition) then
             (case findValidTransition definition currentContext event (implementations machine) of
                None \<Rightarrow> None
              | Some found \<Rightarrow>
                  (case target found of
                     None \<Rightarrow> None
                   | Some t \<Rightarrow>
                       (if t \<noteq> [] then
                          (let afterExit =
                                 runActionLists
                                   (concat (map (\<lambda>currentPath.
                                                   map node_exit (rev (getStateNodesInPath machine currentPath)))
                                                currentPaths))
                                   currentContext event (implementations machine);
                               afterTransition = executeActions (actions found) (fst afterExit) event
                                                   (implementations machine);
                               targetPath = split_dot t;
                               resolvedPath =
                                 (case getStateNodeByPath machine targetPath of
                                    None \<Rightarrow> targetPath
                                  | Some targetNode \<Rightarrow> resolveInitialState targetNode targetPath);
                               afterEntry =
                                 runActionLists (map node_entry (getStateNodesInPath machine resolvedPath))
                                   (fst afterTransition) event (implementations machine)
                           in Some \<lparr>nextState = pathToStateValue resolvedPath,
                                    nextContext = fst afterEntry,
                                    changed = True,
                                    effects = Some (snd afterExit @ snd afterTransition @ snd afterEntry),
                                    res_history = None\<rparr>)
                        else None)))
           else None))"

text \<open>The loop of \<^verbatim>\<open>computeTransition\<close> over the active paths: the first path that yields a
  transition decides.\<close>

fun firstTransition ::
  "('c, 'p, 'x) Machine \<Rightarrow> string list list \<Rightarrow> 'p EventObject \<Rightarrow> 'c
   \<Rightarrow> (('c, 'p, 'x) TransitionConfig \<times> string list) option" where
  "firstTransition machine [] event ctx = None"
| "firstTransition machine (currentPath # paths) event ctx =
     (case findTransitionInPath machine currentPath event ctx (implementations machine) of
        Some found \<Rightarrow> Some found
      | None \<Rightarrow> firstTransition machine paths event ctx)"

text \<open>
  \<^verbatim>\<open>computeTransition\<close>. The outer \<open>None\<close> is the exception of \<open>recursiveResolve\<close>; every
  other path returns a result.
\<close>

definition computeTransition ::
  "nat \<Rightarrow> ('c, 'p, 'x) Machine \<Rightarrow> StateValue \<Rightarrow> 'c \<Rightarrow> 'p EventObject
   \<Rightarrow> (string \<times> StateValue) list \<Rightarrow> ('c, 'x) TransitionResult option" where
  "computeTransition depth machine currentState currentContext event historyValue =
     (let currentPaths = stateValueToPaths currentState
      in case firstTransition machine currentPaths event currentContext of
           Some (transition, fromPath) \<Rightarrow>
             applyTransition depth machine currentState currentContext event historyValue
               currentPaths transition fromPath
         | None \<Rightarrow>
             (case globalTransition machine currentContext event currentPaths of
                Some result \<Rightarrow> Some result
              | None \<Rightarrow>
                  Some \<lparr>nextState = currentState,
                        nextContext = currentContext,
                        changed = False,
                        effects = None,
                        res_history = None\<rparr>))"

section \<open>Machine creation (machine.ts)\<close>

text \<open>
  \<^verbatim>\<open>validateStateNode\<close> throws on a state with children, other than a parallel one, that has
  no \<^verbatim>\<open>initial\<close> or whose \<^verbatim>\<open>initial\<close> names no child, and on a state with an \<^verbatim>\<open>initial\<close> but
  no children. The error message is the value of the failure.
\<close>

datatype ConfigError =
  NoInitialState string
| InitialNotFound string string
| InitialWithoutChildren string
| MachineNoInitial
| MachineNoStates
| MachineInitialNotFound string

function validateStateNode ::
  "('c, 'p, 'x) StateNodeConfig \<Rightarrow> string \<Rightarrow> string list \<Rightarrow> ConfigError option"
and validateChildren ::
  "(string \<times> ('c, 'p, 'x) StateNodeConfig) list \<Rightarrow> string list \<Rightarrow> ConfigError option"
where
  "validateStateNode stateNode stateName path =
     (let fullPath = join_dot (path @ [stateName]);
          afterChildren =
            (case node_states stateNode of
               None \<Rightarrow> None
             | Some children \<Rightarrow>
                 (if children = [] then None
                  else if node_type stateNode = Some Parallel then
                    validateChildren children (path @ [stateName])
                  else if \<not> truthy (node_initial stateNode) then Some (NoInitialState fullPath)
                  else
                    (case node_initial stateNode of
                       None \<Rightarrow> Some (NoInitialState fullPath)
                     | Some i \<Rightarrow>
                         (if map_of children i = None then Some (InitialNotFound i fullPath)
                          else validateChildren children (path @ [stateName])))))
      in case afterChildren of
           Some err \<Rightarrow> Some err
         | None \<Rightarrow>
             (if truthy (node_initial stateNode) \<and> noChildren stateNode
              then Some (InitialWithoutChildren fullPath) else None))"
| "validateChildren [] path = None"
| "validateChildren ((childName, childNode) # rest) path =
     (case validateStateNode childNode childName path of
        Some err \<Rightarrow> Some err
      | None \<Rightarrow> validateChildren rest path)"
  by pat_completeness auto
termination
  by (relation "measure (\<lambda>x. case x of
                   Inl (stateNode, stateName, path) \<Rightarrow> 2 * size stateNode
                 | Inr (children, path) \<Rightarrow> 2 * size_list (size_prod (\<lambda>_. 0) size) children + 1)")
     (auto, (case_tac stateNode, simp)+)

text \<open>
  \<^verbatim>\<open>createMachine\<close> validates the configuration and returns the machine. Its second pass,
  \<^verbatim>\<open>registerInvokeTransitions\<close>, writes the \<^verbatim>\<open>onDone\<close> and \<^verbatim>\<open>onError\<close> transitions of every
  invocation into the \<^verbatim>\<open>on\<close> map of the declaring state; the embedding takes the
  configuration as it is after that pass, which a second run over it leaves unchanged.
  \<^verbatim>\<open>provide\<close> is the method of the returned machine.
\<close>

definition createMachine ::
  "('c, 'p, 'x) MachineConfig \<Rightarrow> ('c, 'p, 'x) MachineImplementations
   \<Rightarrow> ConfigError + ('c, 'p, 'x) Machine" where
  "createMachine cfg impls =
     (if cfg_initial cfg = [] then Inl MachineNoInitial
      else if cfg_states cfg = [] then Inl MachineNoStates
      else if map_of (cfg_states cfg) (cfg_initial cfg) = None
      then Inl (MachineInitialNotFound (cfg_initial cfg))
      else
        (case validateChildren (cfg_states cfg) [] of
           Some err \<Rightarrow> Inl err
         | None \<Rightarrow>
             Inr \<lparr>config = cfg, initialState = cfg_initial cfg, implementations = impls\<rparr>))"

definition provide ::
  "('c, 'p, 'x) Machine \<Rightarrow> ('c, 'p, 'x) MachineImplementations
   \<Rightarrow> ConfigError + ('c, 'p, 'x) Machine" where
  "provide machine newImplementations =
     createMachine (config machine)
       \<lparr>impl_actions = impl_actions (implementations machine) ++ impl_actions newImplementations,
        impl_guards = impl_guards (implementations machine) ++ impl_guards newImplementations,
        impl_delays = Map.empty\<rparr>"

section \<open>The actor (actor.ts)\<close>

text \<open>
  The variables that \<^verbatim>\<open>createActor\<close> closes over, as a record. Observers are kept by
  identity in an insertion-ordered set; what the console and the observers receive is recorded
  in order: \<open>notified\<close> holds one entry per observer call with the \<^verbatim>\<open>value\<close> and
  \<^verbatim>\<open>context\<close> of the snapshot it was given, \<open>warnings\<close> the messages the actor itself passes
  to \<^verbatim>\<open>console.warn\<close>, and \<open>outbox\<close> the effects handed to \<^verbatim>\<open>processEffects\<close>, whose
  delivery to other actors is outside the embedding. Invoked children and timers are kept as
  the tables of their ids and delay keys under the dotted path that started them; a child or a
  timer acts on the actor only by a later event. \<^verbatim>\<open>structuredClone\<close> of the context is the
  identity on values.
\<close>

record ('c, 'x) Actor =
  currentState :: StateValue
  currentContext :: 'c
  actorHistory :: "(string \<times> StateValue) list"
  started :: bool
  observers :: "nat list"
  invokedActors :: "(string \<times> string list) list"
  delayedTransitions :: "(string \<times> string list) list"
  notified :: "(nat \<times> StateValue \<times> 'c) list"
  outbox :: "'x list"
  warnings :: "string list"

definition createActor :: "('c, 'p, 'x) Machine \<Rightarrow> ('c, 'x) Actor" where
  "createActor machine =
     \<lparr>currentState = getInitialStateValue machine,
      currentContext = cfg_context (config machine),
      actorHistory = [],
      started = False,
      observers = [],
      invokedActors = [],
      delayedTransitions = [],
      notified = [],
      outbox = [],
      warnings = []\<rparr>"

definition subscribe :: "nat \<Rightarrow> ('c, 'x) Actor \<Rightarrow> ('c, 'x) Actor" where
  "subscribe observer a = a\<lparr>observers := set_add (observers a) observer\<rparr>"

definition notify :: "('c, 'x) Actor \<Rightarrow> ('c, 'x) Actor" where
  "notify a =
     a\<lparr>notified := notified a @ map (\<lambda>observer. (observer, currentState a, currentContext a))
                                      (observers a)\<rparr>"

definition processEffects :: "'x list \<Rightarrow> ('c, 'x) Actor \<Rightarrow> ('c, 'x) Actor" where
  "processEffects effs a = a\<lparr>outbox := outbox a @ effs\<rparr>"

definition warn :: "string \<Rightarrow> ('c, 'x) Actor \<Rightarrow> ('c, 'x) Actor" where
  "warn message a = a\<lparr>warnings := warnings a @ [message]\<rparr>"

text \<open>\<^verbatim>\<open>startInvocations\<close> records the started children and notifies the observers.\<close>

definition startInvocations :: "string list \<Rightarrow> string \<Rightarrow> ('c, 'x) Actor \<Rightarrow> ('c, 'x) Actor" where
  "startInvocations invocations pathStr a =
     notify (if invocations \<noteq> []
             then a\<lparr>invokedActors := AList.update pathStr invocations (invokedActors a)\<rparr>
             else a)"

definition startDelays ::
  "('c, 'p, 'x) StateNodeConfig \<Rightarrow> string \<Rightarrow> ('c, 'x) Actor \<Rightarrow> ('c, 'x) Actor" where
  "startDelays stateNode pathStr a =
     (case node_after stateNode of
        None \<Rightarrow> a
      | Some after \<Rightarrow>
          a\<lparr>delayedTransitions := AList.update pathStr (map fst after) (delayedTransitions a)\<rparr>)"

definition stopDelays :: "string \<Rightarrow> ('c, 'x) Actor \<Rightarrow> ('c, 'x) Actor" where
  "stopDelays pathStr a = a\<lparr>delayedTransitions := AList.delete pathStr (delayedTransitions a)\<rparr>"

text \<open>The dotted strings of all active nodes of a list of paths, as an insertion-ordered set.\<close>

definition activeSet :: "string list list \<Rightarrow> string list" where
  "activeSet paths =
     fold (\<lambda>path acc. fold (\<lambda>i acc'. set_add acc' (join_dot (take (Suc i) path)))
                            [0..<length path] acc)
          paths []"

definition handleInvokedActors ::
  "('c, 'p, 'x) Machine \<Rightarrow> StateValue \<Rightarrow> StateValue \<Rightarrow> ('c, 'x) Actor \<Rightarrow> ('c, 'x) Actor" where
  "handleInvokedActors machine previousState newState a =
     (let prevActive = activeSet (stateValueToPaths previousState);
          nextActive = activeSet (stateValueToPaths newState);
          stopped =
            fold (\<lambda>pathStr b.
                    if pathStr \<notin> set nextActive
                    then stopDelays pathStr (b\<lparr>invokedActors := AList.delete pathStr (invokedActors b)\<rparr>)
                    else b)
                 prevActive a
      in fold (\<lambda>pathStr b.
                 if pathStr \<notin> set prevActive then
                   (case getStateNodeByPath machine (split_dot pathStr) of
                      None \<Rightarrow> b
                    | Some stateNode \<Rightarrow>
                        startDelays stateNode pathStr
                          (case node_invoke stateNode of
                             None \<Rightarrow> b
                           | Some invocations \<Rightarrow> startInvocations invocations pathStr b))
                 else b)
              nextActive stopped)"

text \<open>
  One pass of the loop of \<^verbatim>\<open>processAlways\<close>: the transition is computed for the trigger event
  retyped \<^verbatim>\<open>$$always\<close>; when it fired, state, context and history are replaced, invocations
  are reconciled and the effects processed. \<open>Raised\<close> is the exception of
  \<open>computeTransition\<close>.
\<close>

datatype ('c, 'x) Iteration = Raised | Quiescent | Fired "('c, 'x) Actor"

definition alwaysIteration ::
  "nat \<Rightarrow> ('c, 'p, 'x) Machine \<Rightarrow> 'p EventObject \<Rightarrow> ('c, 'x) Actor \<Rightarrow> ('c, 'x) Iteration" where
  "alwaysIteration depth machine triggerEvent a =
     (let transientEvent = triggerEvent\<lparr>etype := ''$$always''\<rparr>;
          prevTransientState = currentState a;
          transientContext = currentContext a
      in case computeTransition depth machine (currentState a) transientContext transientEvent
                (actorHistory a) of
           None \<Rightarrow> Raised
         | Some result \<Rightarrow>
             (if changed result then
                (let a1 = a\<lparr>currentState := nextState result,
                            currentContext := nextContext result,
                            actorHistory := (case res_history result of
                                               None \<Rightarrow> actorHistory a
                                             | Some h \<Rightarrow> h)\<rparr>;
                     a2 = handleInvokedActors machine prevTransientState (currentState a1) a1
                 in Fired (case effects result of
                             None \<Rightarrow> a2
                           | Some effs \<Rightarrow> processEffects effs a2))
              else Quiescent))"

text \<open>
  \<^verbatim>\<open>processAlways\<close>: \<^verbatim>\<open>while (keepGoing && steps < 100)\<close>. The loop returns the actor together
  with the final value of \<^verbatim>\<open>steps\<close>, which the warning after the loop tests.
\<close>

function processAlwaysLoop ::
  "nat \<Rightarrow> ('c, 'p, 'x) Machine \<Rightarrow> 'p EventObject \<Rightarrow> ('c, 'x) Actor \<Rightarrow> nat
   \<Rightarrow> (('c, 'x) Actor \<times> nat) option" where
  "processAlwaysLoop depth machine triggerEvent a steps =
     (if steps < 100 then
        (case alwaysIteration depth machine triggerEvent a of
           Raised \<Rightarrow> None
         | Quiescent \<Rightarrow> Some (a, steps)
         | Fired a' \<Rightarrow> processAlwaysLoop depth machine triggerEvent a' (Suc steps))
      else Some (a, steps))"
  by pat_completeness auto
termination
  by (relation "measure (\<lambda>(depth, machine, triggerEvent, a, steps). 100 - steps)") auto

declare processAlwaysLoop.simps [simp del]

definition processAlways ::
  "nat \<Rightarrow> ('c, 'p, 'x) Machine \<Rightarrow> 'p EventObject \<Rightarrow> ('c, 'x) Actor \<Rightarrow> ('c, 'x) Actor option" where
  "processAlways depth machine triggerEvent a =
     (case processAlwaysLoop depth machine triggerEvent a 0 of
        None \<Rightarrow> None
      | Some (a', steps) \<Rightarrow>
          Some (if steps \<ge> 100 then warn ''Possible infinite loop in always transitions'' a'
                else a'))"

text \<open>
  \<^verbatim>\<open>previousState !== currentState\<close> compares two strings by value and anything else by
  reference; a state value that \<open>computeTransition\<close> returns with \<^verbatim>\<open>changed\<close> set is a
  string or a freshly built object.
\<close>

fun notSame :: "StateValue \<Rightarrow> StateValue \<Rightarrow> bool" where
  "notSame (Str a) (Str b) = (a \<noteq> b)"
| "notSame _ _ = True"

definition processEvent ::
  "nat \<Rightarrow> ('c, 'p, 'x) Machine \<Rightarrow> 'p EventObject \<Rightarrow> ('c, 'x) Actor \<Rightarrow> ('c, 'x) Actor option" where
  "processEvent depth machine event a =
     (if \<not> started a then Some (warn ''Actor not started. Call start() before sending events.'' a)
      else
        (let contextCopy = currentContext a;
             previousState = currentState a
         in case computeTransition depth machine (currentState a) contextCopy event (actorHistory a) of
              None \<Rightarrow> None
            | Some result \<Rightarrow>
                (let a1 = a\<lparr>currentState := nextState result,
                            currentContext := nextContext result,
                            actorHistory := (case res_history result of
                                               None \<Rightarrow> actorHistory a
                                             | Some h \<Rightarrow> h)\<rparr>;
                     a2 = (if changed result \<and> notSame previousState (currentState a1)
                           then handleInvokedActors machine previousState (currentState a1) a1
                           else a1);
                     a3 = (case effects result of
                             None \<Rightarrow> a2
                           | Some effs \<Rightarrow> processEffects effs a2)
                 in if changed result then processAlways depth machine event a3 else Some a3)))"

definition send ::
  "nat \<Rightarrow> ('c, 'p, 'x) Machine \<Rightarrow> 'p EventObject \<Rightarrow> ('c, 'x) Actor \<Rightarrow> ('c, 'x) Actor option" where
  "send depth machine event a = processEvent depth machine event a"

text \<open>
  \<^verbatim>\<open>start\<close>: the entry actions of the nodes along every initial path run on the current
  context with the event \<^verbatim>\<open>$init\<close>, invocations and timers of those nodes are started, the
  always transitions are processed and the observers are notified.
\<close>

definition initEvent :: "'p EventObject" where
  "initEvent = \<lparr>etype = ''$init'', ekey = None, edata = None\<rparr>"

definition startInitialInvocations ::
  "('c, 'p, 'x) Machine \<Rightarrow> string list list \<Rightarrow> ('c, 'x) Actor \<Rightarrow> ('c, 'x) Actor" where
  "startInitialInvocations machine paths a =
     fold (\<lambda>path b.
             fold (\<lambda>(node, index) b'.
                     (let pathStr = join_dot (take (Suc index) path);
                          b1 = (case node_invoke node of
                                  None \<Rightarrow> b'
                                | Some invocations \<Rightarrow>
                                    (if map_of (invokedActors b') pathStr = None
                                     then startInvocations invocations pathStr b' else b'))
                      in if map_of (delayedTransitions b1) pathStr = None
                         then startDelays node pathStr b1 else b1))
                  (let nodes = getStateNodesInPath machine path in zip nodes [0..<length nodes]) b)
          paths a"

definition start ::
  "nat \<Rightarrow> ('c, 'p, 'x) Machine \<Rightarrow> ('c, 'x) Actor \<Rightarrow> ('c, 'x) Actor option" where
  "start depth machine a =
     (if started a then Some (warn ''Actor already started'' a)
      else
        (let a0 = a\<lparr>started := True\<rparr>;
             paths = stateValueToPaths (currentState a0);
             afterEntry =
               runActionLists
                 (concat (map (\<lambda>path. map node_entry (getStateNodesInPath machine path)) paths))
                 (currentContext a0) initEvent (implementations machine);
             a1 = processEffects (snd afterEntry) (a0\<lparr>currentContext := fst afterEntry\<rparr>);
             a2 = startInitialInvocations machine paths a1
         in case processAlways depth machine initEvent a2 of
              None \<Rightarrow> None
            | Some a3 \<Rightarrow> Some (notify a3)))"

section \<open>Properties of nodes and values used in the statements\<close>






text \<open>
  The paths of the nodes that are active in a state value strictly below a path: the prefixes
  of the active paths that properly extend it. A state value is dot-free when no state name on
  its active paths contains a dot.
\<close>

definition activeBelow :: "string list \<Rightarrow> StateValue \<Rightarrow> string list set" where
  "activeBelow lcaPath v =
     {q \<in> (\<Union>p \<in> set (stateValueToPaths v). set (prefixes p)). strict_prefix lcaPath q}"

definition dotFree :: "StateValue \<Rightarrow> bool" where
  "dotFree v = (\<forall>p \<in> set (stateValueToPaths v). \<forall>name \<in> set p. CHR ''.'' \<notin> set name)"

section \<open>Machines from the repository's tests and examples\<close>

text \<open>
  The machines below are taken from the repository. Where the test or example logs through an
  array or the console outside the machine, the context is that log, so that the actions that
  ran can be read off the context.
\<close>

definition atomicState :: "('c, 'p, 'x) StateNodeConfig" where
  "atomicState = StateNodeConfig None None None [] [] None None None None None None"

definition logAction :: "string \<Rightarrow> (string list, 'p, 'x) ActionDefinition" where
  "logAction message = ActionFn (\<lambda>ctx event. (ctx @ [message], None))"

definition noImplementations :: "('c, 'p, 'x) MachineImplementations" where
  "noImplementations = \<lparr>impl_actions = Map.empty, impl_guards = Map.empty, impl_delays = Map.empty\<rparr>"

definition plainEvent :: "string \<Rightarrow> unit EventObject" where
  "plainEvent t = \<lparr>etype = t, ekey = None, edata = None\<rparr>"

text \<open>
  The parallel test "Actions execute in document order across regions": three regions, each
  with \<^verbatim>\<open>idle\<close> going to \<^verbatim>\<open>done\<close> on \<^verbatim>\<open>TRIGGER\<close> with an action that pushes the region's
  name.
\<close>

definition triggerRegion :: "string \<Rightarrow> (string list, unit, unit) StateNodeConfig" where
  "triggerRegion name =
     StateNodeConfig None None None [] [] None None None None (Some ''idle'')
       (Some [(''idle'',
               StateNodeConfig
                 (Some [(''TRIGGER'', TConfig \<lparr>target = Some ''done'', actions = [logAction name], guard = None\<rparr>)])
                 None None [] [] None None None None None None),
              (''done'', atomicState)])"

definition triggerMachine :: "(string list, unit, unit) Machine" where
  "triggerMachine =
     \<lparr>config =
        \<lparr>cfg_initial = ''active'',
         cfg_context = [],
         cfg_states =
           [(''active'',
             StateNodeConfig None None None [] [] None (Some Parallel) None None None
               (Some [(''first'', triggerRegion ''first''),
                      (''second'', triggerRegion ''second''),
                      (''third'', triggerRegion ''third'')]))],
         cfg_on = None\<rparr>,
      initialState = ''active'',
      implementations = noImplementations\<rparr>"

text \<open>The toggle example (examples/toggle.ts), whose entry and exit actions log to the console.\<close>

definition toggleMachine :: "(string list, unit, unit) Machine" where
  "toggleMachine =
     \<lparr>config =
        \<lparr>cfg_initial = ''inactive'',
         cfg_context = [],
         cfg_states =
           [(''inactive'',
             StateNodeConfig
               (Some [(''TOGGLE'', TConfig \<lparr>target = Some ''active'', actions = [], guard = None\<rparr>)])
               None None [logAction ''Entering inactive state''] [logAction ''Exiting inactive state'']
               None None None None None None),
            (''active'',
             StateNodeConfig
               (Some [(''TOGGLE'', TConfig \<lparr>target = Some ''inactive'', actions = [], guard = None\<rparr>)])
               None None [logAction ''Entering active state''] [logAction ''Exiting active state'']
               None None None None None None)],
         cfg_on = None\<rparr>,
      initialState = ''inactive'',
      implementations = noImplementations\<rparr>"

text \<open>The test "Delayed transitions: named delay": \<^verbatim>\<open>idle\<close> leaves after the named delay
  \<^verbatim>\<open>TIMEOUT\<close>, which the implementations give as 100.\<close>

definition timeoutMachine :: "(unit, unit, unit) Machine" where
  "timeoutMachine =
     \<lparr>config =
        \<lparr>cfg_initial = ''idle'',
         cfg_context = (),
         cfg_states =
           [(''idle'',
             StateNodeConfig None
               (Some [(''TIMEOUT'', TConfig \<lparr>target = Some ''active'', actions = [], guard = None\<rparr>)])
               None [] [] None None None None None None),
            (''active'', atomicState)],
         cfg_on = None\<rparr>,
      initialState = ''idle'',
      implementations =
        \<lparr>impl_actions = Map.empty, impl_guards = Map.empty,
         impl_delays = [''TIMEOUT'' \<mapsto> DelayNum 100]\<rparr>\<rparr>"

text \<open>
  A machine whose state \<^verbatim>\<open>a\<close> has an always transition to \<^verbatim>\<open>b\<close>, guarded by the type of
  the event being \<^verbatim>\<open>GO\<close>, and a handler for \<^verbatim>\<open>GO\<close> that targets \<^verbatim>\<open>c\<close>.
\<close>

definition eagerAlways :: "(unit, unit, unit) TransitionConfig" where
  "eagerAlways =
     \<lparr>target = Some ''b'', actions = [],
      guard = Some (GuardFn (\<lambda>ctx event. etype event = ''GO''))\<rparr>"

definition eagerNode :: "(unit, unit, unit) StateNodeConfig" where
  "eagerNode =
     StateNodeConfig (Some [(''GO'', TString ''c'')]) None (Some (TConfig eagerAlways))
       [] [] None None None None None None"

definition eagerMachine :: "(unit, unit, unit) Machine" where
  "eagerMachine =
     \<lparr>config =
        \<lparr>cfg_initial = ''a'',
         cfg_context = (),
         cfg_states = [(''a'', eagerNode), (''b'', atomicState), (''c'', atomicState)],
         cfg_on = None\<rparr>,
      initialState = ''a'',
      implementations = noImplementations\<rparr>"

text \<open>The actor of \<open>toggleMachine\<close> as \<^verbatim>\<open>start\<close> leaves it.\<close>

definition startedToggle :: "(string list, unit) Actor" where
  "startedToggle =
     (createActor toggleMachine)\<lparr>started := True, currentContext := [''Entering inactive state'']\<rparr>"

text \<open>
  The parallel test "Exit actions run for all active states when exiting": a parallel state
  with two regions, every node with an exit action that logs its name, left on \<^verbatim>\<open>EXIT\<close>.
\<close>

definition exitRegion :: "string \<Rightarrow> string \<Rightarrow> (string list, unit, unit) StateNodeConfig" where
  "exitRegion regionName childName =
     StateNodeConfig None None None [] [logAction (regionName @ '':exit'')] None None None None
       (Some childName)
       (Some [(childName,
               StateNodeConfig None None None []
                 [logAction (regionName @ ''.'' @ childName @ '':exit'')]
                 None None None None None None)])"

definition exitMachine :: "(string list, unit, unit) Machine" where
  "exitMachine =
     \<lparr>config =
        \<lparr>cfg_initial = ''parallel'',
         cfg_context = [],
         cfg_states =
           [(''parallel'',
             StateNodeConfig
               (Some [(''EXIT'', TConfig \<lparr>target = Some ''outside'', actions = [], guard = None\<rparr>)])
               None None [] [logAction ''parallel:exit''] None (Some Parallel) None None None
               (Some [(''region1'', exitRegion ''region1'' ''a''),
                      (''region2'', exitRegion ''region2'' ''b'')])),
            (''outside'', atomicState)],
         cfg_on = None\<rparr>,
      initialState = ''parallel'',
      implementations = noImplementations\<rparr>"

text \<open>
  The shallow-history test of the repository with one child made compound: \<^verbatim>\<open>parent\<close> has
  the children \<^verbatim>\<open>a\<close>, \<^verbatim>\<open>b\<close> (with children \<^verbatim>\<open>b1\<close>, initial, and \<^verbatim>\<open>b2\<close>) and the shallow
  history node \<^verbatim>\<open>hist\<close>; \<^verbatim>\<open>EXIT\<close> leaves \<^verbatim>\<open>parent\<close> for \<^verbatim>\<open>outside\<close> and \<^verbatim>\<open>RETURN\<close>
  targets \<^verbatim>\<open>parent.hist\<close>.
\<close>

definition goTo :: "string \<Rightarrow> ('c, 'p, 'x) TransitionDefinition" where
  "goTo t = TConfig \<lparr>target = Some t, actions = [], guard = None\<rparr>"

definition histNode :: "(unit, unit, unit) StateNodeConfig" where
  "histNode = StateNodeConfig None None None [] [] None (Some History) None None None None"

definition historyMachine :: "(unit, unit, unit) Machine" where
  "historyMachine =
     \<lparr>config =
        \<lparr>cfg_initial = ''parent'',
         cfg_context = (),
         cfg_states =
           [(''parent'',
             StateNodeConfig (Some [(''EXIT'', goTo ''outside'')]) None None [] [] None None None None
               (Some ''a'')
               (Some [(''a'', StateNodeConfig (Some [(''NEXT'', goTo ''b'')]) None None [] [] None None None
                                None None None),
                      (''b'', StateNodeConfig None None None [] [] None None None None (Some ''b1'')
                                (Some [(''b1'', StateNodeConfig (Some [(''DEEPER'', goTo ''b2'')]) None None [] []
                                                  None None None None None None),
                                       (''b2'', atomicState)])),
                      (''hist'', histNode)])),
            (''outside'',
             StateNodeConfig (Some [(''RETURN'', goTo ''parent.hist'')]) None None [] [] None None None None
               None None)],
         cfg_on = None\<rparr>,
      initialState = ''parent'',
      implementations = noImplementations\<rparr>"

text \<open>Sending a list of events one after the other.\<close>

fun sendAll ::
  "nat \<Rightarrow> ('c, 'p, 'x) Machine \<Rightarrow> 'p EventObject list \<Rightarrow> ('c, 'x) Actor \<Rightarrow> ('c, 'x) Actor option" where
  "sendAll depth machine [] a = Some a"
| "sendAll depth machine (event # events) a =
     (case send depth machine event a of
        None \<Rightarrow> None
      | Some a' \<Rightarrow> sendAll depth machine events a')"

text \<open>
  The test "Detects and halts infinite loop (A -> B -> A)": two states that always target
  each other, each counting its entries; the context is the pair of the two counters.
\<close>

definition loopMachine :: "(nat \<times> nat, unit, unit) Machine" where
  "loopMachine =
     \<lparr>config =
        \<lparr>cfg_initial = ''a'',
         cfg_context = (0, 0),
         cfg_states =
           [(''a'',
             StateNodeConfig None None (Some (goTo ''b''))
               [ActionFn (\<lambda>ctx event. ((Suc (fst ctx), snd ctx), None))] []
               None None None None None None),
            (''b'',
             StateNodeConfig None None (Some (goTo ''a''))
               [ActionFn (\<lambda>ctx event. ((fst ctx, Suc (snd ctx)), None))] []
               None None None None None None)],
         cfg_on = None\<rparr>,
      initialState = ''a'',
      implementations = noImplementations\<rparr>"










text \<open>
  The test "hierarchical - executes entry/exit actions in correct order" with two actions on
  the transition for \<^verbatim>\<open>EXIT\<close> and with \<^verbatim>\<open>done\<close> made a parallel state of two regions;
  \<^verbatim>\<open>DEEP\<close> targets a state inside one of the regions. \<open>orderResult\<close> is what
  \<^verbatim>\<open>computeTransition\<close> returns for \<^verbatim>\<open>EXIT\<close> in \<^verbatim>\<open>parent.child1\<close>.
\<close>

definition orderExit :: "(string list, unit, unit) TransitionConfig" where
  "orderExit = \<lparr>target = Some ''done'',
                 actions = [logAction ''transition:first'', logAction ''transition:second''],
                 guard = None\<rparr>"

definition orderRegion :: "string \<Rightarrow> string \<Rightarrow> (string list, unit, unit) StateNodeConfig" where
  "orderRegion regionName childName =
     StateNodeConfig None None None [logAction (''enter:'' @ regionName)] [] None None None None
       (Some childName)
       (Some [(childName,
               StateNodeConfig None None None [logAction (''enter:'' @ childName)] []
                 None None None None None None)])"

definition orderMachine :: "(string list, unit, unit) Machine" where
  "orderMachine =
     \<lparr>config =
        \<lparr>cfg_initial = ''parent'',
         cfg_context = [],
         cfg_states =
           [(''parent'',
             StateNodeConfig None None None
               [logAction ''enter:parent''] [logAction ''exit:parent''] None None None None
               (Some ''child1'')
               (Some [(''child1'',
                       StateNodeConfig
                         (Some [(''EXIT'', TConfig orderExit), (''DEEP'', goTo ''done.right.r1'')])
                         None None
                         [logAction ''enter:child1''] [logAction ''exit:child1'']
                         None None None None None None)])),
            (''done'',
             StateNodeConfig None None None [logAction ''enter:done''] [] None (Some Parallel) None None
               None
               (Some [(''left'', orderRegion ''left'' ''l1''),
                      (''right'', orderRegion ''right'' ''r1'')]))],
         cfg_on = None\<rparr>,
      initialState = ''parent'',
      implementations = noImplementations\<rparr>"

definition orderResult :: "(string list, unit) TransitionResult" where
  "orderResult =
     \<lparr>nextState = Obj [(''done'', Obj [(''left'', Str ''l1''), (''right'', Str ''r1'')])],
      nextContext = [''exit:child1'', ''exit:parent'', ''transition:first'', ''transition:second'',
                     ''enter:done'', ''enter:left'', ''enter:right'', ''enter:l1'', ''enter:r1''],
      changed = True,
      effects = Some [],
      res_history = Some [(''parent'', Str ''child1'')]\<rparr>"

section \<open>Matching a query against a state value\<close>

lemma pathsMatch_prefix: "pathsMatch currentPath testPath \<longleftrightarrow> prefix testPath currentPath"
proof
  assume m: "pathsMatch currentPath testPath"
  then have len: "length testPath \<le> length currentPath"
    by (auto simp: pathsMatch_def split: if_splits)
  from m have "\<forall>i < length testPath. currentPath ! i = testPath ! i"
    by (auto simp: pathsMatch_def list_all_iff split: if_splits)
  with len have "take (length testPath) currentPath = testPath"
    by (intro nth_equalityI) auto
  then show "prefix testPath currentPath"
    by (metis take_is_prefix)
next
  assume "prefix testPath currentPath"
  then obtain zs where "currentPath = testPath @ zs"
    by (auto simp: prefix_def)
  then show "pathsMatch currentPath testPath"
    by (auto simp: pathsMatch_def list_all_iff nth_append)
qed

text \<open>
  C7 (as stated, refuted). The value \<^verbatim>\<open>{parent: "child"}\<close> has the single active path
  \<^verbatim>\<open>["parent", "child"]\<close>; the one-segment query \<^verbatim>\<open>"child"\<close> matches it although
  \<^verbatim>\<open>["child"]\<close> is not a prefix of that path.
\<close>

theorem C7_single_segment_counterexample:
  "matchesStateValue (Obj [(''parent'', Str ''child'')]) (Str ''child'')
   \<and> stateValueToPaths (Obj [(''parent'', Str ''child'')]) = [[''parent'', ''child'']]
   \<and> \<not> prefix [''child''] [''parent'', ''child'']"
  by (simp add: matchesStateValue_def)

text \<open>
  C7 (amended). A query with a dot matches iff its split path is a prefix of some active path;
  a record query matches iff each of its paths is a prefix of some active path; a string
  query without a dot matches iff the name occurs anywhere in some active path.
\<close>

theorem C7_matches_characterisation:
  "matchesStateValue v q \<longleftrightarrow>
     (case q of
        Str t \<Rightarrow>
          (if CHR ''.'' \<in> set t
           then (\<exists>cp \<in> set (stateValueToPaths v). prefix (split_dot t) cp)
           else (\<exists>cp \<in> set (stateValueToPaths v). t \<in> set cp))
      | Obj _ \<Rightarrow>
          (\<forall>tp \<in> set (stateValueToPaths q). \<exists>cp \<in> set (stateValueToPaths v). prefix tp cp))"
  by (cases q) (auto simp: matchesStateValue_def list_ex_iff list_all_iff pathsMatch_prefix)

theorem C7_matches_characterisation_witness:
  "matchesStateValue (Obj [(''parent'', Str ''child'')]) (Str ''parent.child'')
   \<and> matchesStateValue (Obj [(''parent'', Str ''child'')]) (Obj [(''parent'', Str ''child'')])
   \<and> \<not> matchesStateValue (Obj [(''parent'', Str ''child'')]) (Str ''parent.other'')
   \<and> matchesStateValue (Obj [(''parent'', Str ''child'')]) (Str ''child'')"
  using C7_matches_characterisation [of "Obj [(''parent'', Str ''child'')]" "Str ''parent.child''"]
        C7_matches_characterisation [of "Obj [(''parent'', Str ''child'')]" "Obj [(''parent'', Str ''child'')]"]
        C7_matches_characterisation [of "Obj [(''parent'', Str ''child'')]" "Str ''parent.other''"]
        C7_matches_characterisation [of "Obj [(''parent'', Str ''child'')]" "Str ''child''"]
  by simp

section \<open>One event in a parallel state\<close>

text \<open>
  C1 (the code at the failing input). The actor of \<open>triggerMachine\<close> is started and
  \<^verbatim>\<open>TRIGGER\<close> is sent once. \<^verbatim>\<open>computeTransition\<close> returns from inside its loop over the
  active paths at the first path that yields a transition, so only region \<^verbatim>\<open>first\<close> moves
  to \<^verbatim>\<open>done\<close> and only its action has run; \<^verbatim>\<open>second\<close> and \<^verbatim>\<open>third\<close> stay in \<^verbatim>\<open>idle\<close>. The
  repository's test expects all three regions in \<^verbatim>\<open>done\<close> and three logged actions.
\<close>

theorem C1_trigger_moves_first_region_only:
  "map_option (\<lambda>a. (currentState a, currentContext a))
     (Option.bind (start 0 triggerMachine (createActor triggerMachine))
                  (send 0 triggerMachine (plainEvent ''TRIGGER'')))
   = Some (Obj [(''active'',
                 Obj [(''second'', Str ''idle''), (''third'', Str ''idle''), (''first'', Str ''done'')])],
           [''first''])"
  by code_simp

section \<open>Observers\<close>

text \<open>
  C2 (the code at the failing input). Observer 0 subscribes to the actor of \<open>toggleMachine\<close>,
  the actor is started and \<^verbatim>\<open>TOGGLE\<close> is sent. The transition to \<^verbatim>\<open>active\<close> happens, but
  \<^verbatim>\<open>processEvent\<close> never calls \<^verbatim>\<open>notify\<close>: the only call the observer received is the one
  made by \<^verbatim>\<open>start\<close>, with the value \<^verbatim>\<open>inactive\<close>.
\<close>

theorem C2_send_does_not_notify:
  "map_option (\<lambda>a. (currentState a, notified a))
     (Option.bind (start 0 toggleMachine (subscribe 0 (createActor toggleMachine)))
                  (send 0 toggleMachine (plainEvent ''TOGGLE'')))
   = Some (Str ''active'', [(0, Str ''inactive'', [''Entering inactive state''])])"
  by code_simp

section \<open>Providing implementations\<close>

text \<open>
  C9 (the code at the failing input). \<^verbatim>\<open>provide\<close> builds the new implementations from the
  actions and the guards only. Providing nothing to \<open>timeoutMachine\<close> returns a machine with
  the same configuration on which the named delay \<^verbatim>\<open>TIMEOUT\<close> is no longer present.
\<close>

theorem C9_provide_drops_delays:
  "(case provide timeoutMachine noImplementations of
      Inl err \<Rightarrow> False
    | Inr provided \<Rightarrow>
        config provided = config timeoutMachine
        \<and> impl_delays (implementations timeoutMachine) ''TIMEOUT'' = Some (DelayNum 100)
        \<and> impl_delays (implementations provided) ''TIMEOUT'' = None)"
  by (simp add: provide_def createMachine_def timeoutMachine_def noImplementations_def
                atomicState_def noChildren_def)

section \<open>Selection at a node\<close>

lemma findTransitionLoop_skip:
  assumes "\<forall>j. i < j \<and> j \<le> n \<longrightarrow>
             alwaysCandidate (getStateNodeByPath machine (take j path)) ctx event impls = None
           \<and> onCandidate (getStateNodeByPath machine (take j path)) ctx event impls = None
           \<and> afterCandidate (getStateNodeByPath machine (take j path)) ctx event impls = None"
    and "i \<le> n"
  shows "findTransitionLoop machine path event ctx impls n
         = findTransitionLoop machine path event ctx impls i"
  using assms by (induction n) (auto simp: Let_def le_Suc_eq)

text \<open>
  C10. Walking a path from the leaf to the root, \<^verbatim>\<open>findTransitionInPath\<close> asks each node
  first for its always transitions, whatever the type of the event. If level \<open>i\<close> of the path
  is the deepest that yields anything and its node has an always definition with a transition
  whose guard holds, that transition is returned with the node's path; the node's \<^verbatim>\<open>on\<close>
  entry for the event is not consulted.
\<close>

theorem C10_always_before_on:
  assumes "0 < i" and "i \<le> length path"
    and "getStateNodeByPath machine (take i path) = Some node"
    and "node_always node = Some definition"
    and "truthyDefinition (Some definition)"
    and "findValidTransition definition ctx event impls = Some transition"
    and "\<forall>j. i < j \<and> j \<le> length path \<longrightarrow>
             alwaysCandidate (getStateNodeByPath machine (take j path)) ctx event impls = None
           \<and> onCandidate (getStateNodeByPath machine (take j path)) ctx event impls = None
           \<and> afterCandidate (getStateNodeByPath machine (take j path)) ctx event impls = None"
  shows "findTransitionInPath machine path event ctx impls = Some (transition, take i path)"
proof -
  obtain k where k: "i = Suc k"
    using assms(1) by (cases i) auto
  have "findTransitionInPath machine path event ctx impls
        = findTransitionLoop machine path event ctx impls i"
    unfolding findTransitionInPath_def
    using assms(7) assms(2) by (rule findTransitionLoop_skip)
  also have "\<dots> = Some (transition, take i path)"
    using assms(3-6) by (simp add: k alwaysCandidate_def)
  finally show ?thesis .
qed

text \<open>
  On \<open>eagerMachine\<close> the event \<^verbatim>\<open>GO\<close> has a handler in state \<^verbatim>\<open>a\<close>, which by itself would
  select the transition to \<^verbatim>\<open>c\<close>; the always transition is selected instead and the ordinary
  event takes the machine to \<^verbatim>\<open>b\<close>.
\<close>

theorem C10_always_before_on_witness:
  "findTransitionInPath eagerMachine [''a''] (plainEvent ''GO'') () noImplementations
     = Some (eagerAlways, [''a''])
   \<and> onCandidate (getStateNodeByPath eagerMachine [''a'']) () (plainEvent ''GO'') noImplementations
     = Some \<lparr>target = Some ''c'', actions = [], guard = None\<rparr>
   \<and> map_option nextState
        (computeTransition 0 eagerMachine (Str ''a'') () (plainEvent ''GO'') []) = Some (Str ''b'')"
proof -
  have node: "getStateNodeByPath eagerMachine (take 1 [''a'']) = Some eagerNode"
    by (simp add: getStateNodeByPath_def eagerMachine_def)
  have valid: "findValidTransition (TConfig eagerAlways) () (plainEvent ''GO'') noImplementations
               = Some eagerAlways"
    by (simp add: findValidTransition_def normalizeTransitionDefinition_def evaluateGuard_def
                  resolveGuard_def eagerAlways_def plainEvent_def)
  have "findTransitionInPath eagerMachine [''a''] (plainEvent ''GO'') () noImplementations
        = Some (eagerAlways, take 1 [''a''])"
    by (rule C10_always_before_on [OF _ _ node _ _ valid]) (auto simp: eagerNode_def)
  moreover have "onCandidate (getStateNodeByPath eagerMachine [''a'']) () (plainEvent ''GO'') noImplementations
     = Some \<lparr>target = Some ''c'', actions = [], guard = None\<rparr>"
    by (simp add: onCandidate_def readDefinition_def getStateNodeByPath_def eagerMachine_def
                  eagerNode_def plainEvent_def findValidTransition_def
                  normalizeTransitionDefinition_def evaluateGuard_def)
  moreover have "map_option nextState
        (computeTransition 0 eagerMachine (Str ''a'') () (plainEvent ''GO'') []) = Some (Str ''b'')"
    by code_simp
  ultimately show ?thesis by simp
qed

section \<open>Events that select nothing\<close>

lemma findTransitionLoop_none:
  assumes "\<forall>j. 0 < j \<and> j \<le> n \<longrightarrow>
             alwaysCandidate (getStateNodeByPath machine (take j path)) ctx event impls = None
           \<and> onCandidate (getStateNodeByPath machine (take j path)) ctx event impls = None
           \<and> afterCandidate (getStateNodeByPath machine (take j path)) ctx event impls = None"
  shows "findTransitionLoop machine path event ctx impls n = None"
  using assms by (induction n) (auto simp: Let_def)

lemma firstTransition_none:
  assumes "\<forall>path \<in> set paths. findTransitionInPath machine path event ctx (implementations machine) = None"
  shows "firstTransition machine paths event ctx = None"
  using assms by (induction paths) auto

lemma globalTransition_none:
  assumes "case readDefinition (cfg_on (config machine)) (etype event) of
             None \<Rightarrow> True
           | Some definition \<Rightarrow>
               \<not> truthyDefinition (Some definition)
               \<or> findValidTransition definition ctx event (implementations machine) = None"
  shows "globalTransition machine ctx event paths = None"
proof (cases "readDefinition (cfg_on (config machine)) (etype event)")
  case None
  then show ?thesis by (simp add: globalTransition_def)
next
  case (Some d)
  show ?thesis
  proof (cases "truthyDefinition (Some d)")
    case False
    with Some show ?thesis by (simp add: globalTransition_def)
  next
    case True
    with Some assms have "findValidTransition d ctx event (implementations machine) = None"
      by simp
    with Some True show ?thesis by (simp add: globalTransition_def)
  qed
qed

text \<open>
  C6 (amended). The actor is started; at no active node does the always definition, the
  \<^verbatim>\<open>on\<close> entry read for the event type or, for a \<^verbatim>\<open>$delay\<close> event, the \<^verbatim>\<open>after\<close> entry
  read for the event's key yield a transition whose guard holds; and the root-level \<^verbatim>\<open>on\<close>
  map, read for the event type, yields none either. Then processing the event returns normally
  and leaves the actor as it was: state value, context and everything else. The entries are
  read as the source reads them, members of \<^verbatim>\<open>Object.prototype\<close> included.
\<close>

theorem C6_unhandled_event_dropped:
  assumes "started a"
    and "\<forall>path \<in> set (stateValueToPaths (currentState a)). \<forall>i. 0 < i \<and> i \<le> length path \<longrightarrow>
             alwaysCandidate (getStateNodeByPath machine (take i path)) (currentContext a) event
               (implementations machine) = None
           \<and> onCandidate (getStateNodeByPath machine (take i path)) (currentContext a) event
               (implementations machine) = None
           \<and> afterCandidate (getStateNodeByPath machine (take i path)) (currentContext a) event
               (implementations machine) = None"
    and "case readDefinition (cfg_on (config machine)) (etype event) of
           None \<Rightarrow> True
         | Some definition \<Rightarrow>
             \<not> truthyDefinition (Some definition)
             \<or> findValidTransition definition (currentContext a) event (implementations machine) = None"
  shows "processEvent depth machine event a = Some a"
proof -
  have "\<forall>path \<in> set (stateValueToPaths (currentState a)).
          findTransitionInPath machine path event (currentContext a) (implementations machine) = None"
    unfolding findTransitionInPath_def using assms(2) by (auto intro!: findTransitionLoop_none)
  then have first: "firstTransition machine (stateValueToPaths (currentState a)) event (currentContext a) = None"
    by (rule firstTransition_none)
  have glob: "globalTransition machine (currentContext a) event (stateValueToPaths (currentState a)) = None"
    using assms(3) by (rule globalTransition_none)
  have "computeTransition depth machine (currentState a) (currentContext a) event (actorHistory a)
        = Some \<lparr>nextState = currentState a, nextContext = currentContext a, changed = False,
                 effects = None, res_history = None\<rparr>"
    by (simp add: computeTransition_def first glob)
  with assms(1) show ?thesis
    by (simp add: processEvent_def)
qed

text \<open>
  The started actor of \<open>toggleMachine\<close> drops the event \<^verbatim>\<open>UNKNOWN\<close>, which no map knows.
\<close>

theorem C6_unhandled_event_dropped_witness:
  "start 0 toggleMachine (createActor toggleMachine) = Some startedToggle
   \<and> processEvent 0 toggleMachine (plainEvent ''UNKNOWN'') startedToggle = Some startedToggle"
proof -
  have s: "start 0 toggleMachine (createActor toggleMachine) = Some startedToggle"
    by code_simp
  have st: "currentState startedToggle = Str ''inactive''"
    by code_simp
  have run: "started startedToggle"
    by (simp add: startedToggle_def)
  have node: "getStateNodeByPath toggleMachine [''inactive'']
              = Some (StateNodeConfig
                        (Some [(''TOGGLE'', TConfig \<lparr>target = Some ''active'', actions = [], guard = None\<rparr>)])
                        None None [logAction ''Entering inactive state''] [logAction ''Exiting inactive state'']
                        None None None None None None)"
    by (simp add: getStateNodeByPath_def toggleMachine_def)
  have nodes: "\<forall>path \<in> set (stateValueToPaths (currentState startedToggle)).
          \<forall>i. 0 < i \<and> i \<le> length path \<longrightarrow>
             alwaysCandidate (getStateNodeByPath toggleMachine (take i path)) (currentContext startedToggle)
               (plainEvent ''UNKNOWN'') (implementations toggleMachine) = None
           \<and> onCandidate (getStateNodeByPath toggleMachine (take i path)) (currentContext startedToggle)
               (plainEvent ''UNKNOWN'') (implementations toggleMachine) = None
           \<and> afterCandidate (getStateNodeByPath toggleMachine (take i path)) (currentContext startedToggle)
               (plainEvent ''UNKNOWN'') (implementations toggleMachine) = None"
    by (auto simp: st le_Suc_eq node alwaysCandidate_def onCandidate_def afterCandidate_def
                   plainEvent_def readDefinition_def objectPrototypeKeys_def)
  have root: "case readDefinition (cfg_on (config toggleMachine)) (etype (plainEvent ''UNKNOWN'')) of
           None \<Rightarrow> True
         | Some definition \<Rightarrow>
             \<not> truthyDefinition (Some definition)
             \<or> findValidTransition definition (currentContext startedToggle) (plainEvent ''UNKNOWN'')
                  (implementations toggleMachine) = None"
    by (simp add: toggleMachine_def readDefinition_def)
  have "processEvent 0 toggleMachine (plainEvent ''UNKNOWN'') startedToggle = Some startedToggle"
    using run nodes root by (rule C6_unhandled_event_dropped)
  with s show ?thesis by simp
qed

text \<open>
  C6 (as stated, refuted). On \<open>timeoutMachine\<close> no \<^verbatim>\<open>on\<close> map, of the active node
  \<^verbatim>\<open>idle\<close> or of the root, has an entry for the event \<^verbatim>\<open>$delay\<close> that a fired timer sends,
  yet the event moves the started actor from \<^verbatim>\<open>idle\<close> to \<^verbatim>\<open>active\<close> through the
  \<^verbatim>\<open>after\<close> map. On \<open>loopMachine\<close> no node and no root has an \<^verbatim>\<open>on\<close> map at all, yet
  the event \<^verbatim>\<open>PING\<close> moves the started actor from \<^verbatim>\<open>a\<close> to \<^verbatim>\<open>b\<close> through the always
  transitions.
\<close>

theorem C6_delay_event_counterexample:
  "map_option currentState (start 0 timeoutMachine (createActor timeoutMachine)) = Some (Str ''idle'')
   \<and> onCandidate (getStateNodeByPath timeoutMachine [''idle'']) ()
        \<lparr>etype = ''$delay'', ekey = Some ''TIMEOUT'', edata = None\<rparr> (implementations timeoutMachine) = None
   \<and> readDefinition (cfg_on (config timeoutMachine)) ''$delay'' = None
   \<and> map_option currentState
        (Option.bind (start 0 timeoutMachine (createActor timeoutMachine))
           (send 0 timeoutMachine \<lparr>etype = ''$delay'', ekey = Some ''TIMEOUT'', edata = None\<rparr>))
      = Some (Str ''active'')
   \<and> map_option currentState (start 0 loopMachine (createActor loopMachine)) = Some (Str ''a'')
   \<and> onCandidate (getStateNodeByPath loopMachine [''a'']) (51, 50) (plainEvent ''PING'')
        (implementations loopMachine) = None
   \<and> readDefinition (cfg_on (config loopMachine)) ''PING'' = None
   \<and> map_option currentState
        (Option.bind (start 0 loopMachine (createActor loopMachine))
           (send 0 loopMachine (plainEvent ''PING'')))
      = Some (Str ''b'')"
  by code_simp

text \<open>
  An event typed like a member of \<^verbatim>\<open>Object.prototype\<close> is read from the \<^verbatim>\<open>on\<close> map of
  \<^verbatim>\<open>inactive\<close> as a transition without target: the started actor of \<open>toggleMachine\<close> exits
  and re-enters \<^verbatim>\<open>inactive\<close>.
\<close>

lemma constructor_event_reenters:
  "map_option (\<lambda>a. (currentState a, currentContext a))
     (processEvent 0 toggleMachine (plainEvent ''constructor'') startedToggle)
   = Some (Str ''inactive'',
           [''Entering inactive state'', ''Exiting inactive state'', ''Entering inactive state''])"
  by code_simp

section \<open>The order of actions in a transition\<close>

lemma executeActions_append:
  "executeActions (xs @ ys) ctx event impls =
     (let first = executeActions xs ctx event impls;
          second = executeActions ys (fst first) event impls
      in (fst second, snd first @ snd second))"
  by (induction xs arbitrary: ctx) (auto simp: Let_def split: option.splits prod.splits)

lemma runActionLists_concat:
  "runActionLists ls ctx event impls = executeActions (concat ls) ctx event impls"
  by (induction ls arbitrary: ctx) (auto simp: executeActions_append Let_def split: prod.splits)

lemma sortDeepestFirst_sorted:
  "sorted_wrt (\<lambda>a b. length (fst a) \<ge> length (fst b)) (sortDeepestFirst nodes)"
proof -
  have "sorted (map (\<lambda>a. - int (length (fst a))) (sortDeepestFirst nodes))"
    unfolding sortDeepestFirst_def by (rule sorted_sort_key)
  then show ?thesis
    by (simp add: sorted_map)
qed

lemma sortShallowestFirst_sorted:
  "sorted_wrt (\<lambda>a b. length (fst a) \<le> length (fst b)) (sortShallowestFirst nodes)"
proof -
  have "sorted (map (\<lambda>a. length (fst a)) (sortShallowestFirst nodes))"
    unfolding sortShallowestFirst_def by (rule sorted_sort_key)
  then show ?thesis
    by (simp add: sorted_map)
qed

lemma split_dot_plain: "CHR ''.'' \<notin> set x \<Longrightarrow> split_dot x = [x]"
  by (induction x) auto

lemma split_dot_first:
  "CHR ''.'' \<notin> set x \<Longrightarrow> split_dot (x @ CHR ''.'' # rest) = x # split_dot rest"
  by (induction x) auto

lemma split_join_dot:
  "xs \<noteq> [] \<Longrightarrow> \<forall>x \<in> set xs. CHR ''.'' \<notin> set x \<Longrightarrow> split_dot (join_dot xs) = xs"
  by (induction xs rule: join_dot.induct) (auto simp: split_dot_plain split_dot_first)

lemma join_dot_inj:
  assumes "xs \<noteq> []" and "ys \<noteq> []"
    and "\<forall>x \<in> set xs. CHR ''.'' \<notin> set x" and "\<forall>y \<in> set ys. CHR ''.'' \<notin> set y"
    and "join_dot xs = join_dot ys"
  shows "xs = ys"
  using assms by (metis split_join_dot)

lemma visitNode_step:
  assumes inj: "inj_on join_dot (insert s V)"
    and vis: "set (fst acc) = join_dot ` V"
    and nodes: "set (snd acc) = {(q, n). q \<in> V \<and> getStateNodeByPath machine q = Some n}"
    and dist: "distinct (map fst (snd acc))"
  shows "set (fst (visitNode machine s acc)) = join_dot ` insert s V
       \<and> set (snd (visitNode machine s acc))
           = {(q, n). q \<in> insert s V \<and> getStateNodeByPath machine q = Some n}
       \<and> distinct (map fst (snd (visitNode machine s acc)))"
proof (cases "join_dot s \<in> set (fst acc)")
  case True
  then obtain s' where "s' \<in> V" and "join_dot s' = join_dot s"
    using vis by auto
  from inj_onD [OF inj \<open>join_dot s' = join_dot s\<close>] \<open>s' \<in> V\<close> have "s \<in> V"
    by simp
  then have "insert s V = V" by auto
  moreover from True have "visitNode machine s acc = acc"
    by (cases acc) (simp add: visitNode_def)
  ultimately show ?thesis
    using vis nodes dist by simp
next
  case False
  then have notin: "s \<notin> V"
    using vis by auto
  then have fresh: "s \<notin> fst ` set (snd acc)"
    using nodes by force
  show ?thesis
  proof (cases "getStateNodeByPath machine s")
    case None
    with False have "visitNode machine s acc = (fst acc @ [join_dot s], snd acc)"
      by (cases acc) (simp add: visitNode_def)
    then show ?thesis
      using vis nodes dist None by auto
  next
    case (Some n)
    with False have "visitNode machine s acc = (fst acc @ [join_dot s], snd acc @ [(s, n)])"
      by (cases acc) (simp add: visitNode_def)
    then show ?thesis
      using vis nodes dist Some fresh by auto
  qed
qed

lemma fold_visitNode_set:
  assumes "inj_on join_dot (V \<union> set visits)"
    and "set (fst acc) = join_dot ` V"
    and "set (snd acc) = {(q, n). q \<in> V \<and> getStateNodeByPath machine q = Some n}"
    and "distinct (map fst (snd acc))"
  shows "set (snd (fold (visitNode machine) visits acc))
           = {(q, n). q \<in> V \<union> set visits \<and> getStateNodeByPath machine q = Some n}
       \<and> distinct (map fst (snd (fold (visitNode machine) visits acc)))"
  using assms
proof (induction visits arbitrary: acc V)
  case Nil
  then show ?case by simp
next
  case (Cons s rest)
  have sub: "insert s V \<subseteq> V \<union> set (s # rest)"
    by auto
  have inj1: "inj_on join_dot (insert s V)"
    using Cons.prems(1) sub by (rule inj_on_subset)
  note step = visitNode_step [OF inj1 Cons.prems(2) Cons.prems(3) Cons.prems(4)]
  have eq: "V \<union> set (s # rest) = insert s V \<union> set rest"
    by auto
  have inj2: "inj_on join_dot (insert s V \<union> set rest)"
    using Cons.prems(1) by (simp only: eq)
  note ih = Cons.IH [OF inj2 step [THEN conjunct1] step [THEN conjunct2, THEN conjunct1]
                        step [THEN conjunct2, THEN conjunct2]]
  have "fold (visitNode machine) (s # rest) acc = fold (visitNode machine) rest (visitNode machine s acc)"
    by simp
  with ih show ?case
    by (simp only: eq)
qed

lemma fold_concat_lists: "fold f (concat xss) acc = fold (fold f) xss acc"
  by (induction xss arbitrary: acc) simp_all

lemma collectExitNodes_fold:
  "collectExitNodes machine lcaIndex paths =
     snd (fold (visitNode machine)
               (concat (map (\<lambda>p. map (\<lambda>i. take i p) (rev [Suc lcaIndex..<Suc (length p)])) paths))
               ([], []))"
  by (simp add: collectExitNodes_def fold_concat_lists fold_map comp_def)

lemma collectEnterNodes_fold:
  "collectEnterNodes machine lcaIndex paths =
     snd (fold (visitNode machine)
               (concat (map (\<lambda>p. map (\<lambda>i. take i p) [Suc lcaIndex..<Suc (length p)]) paths))
               ([], []))"
  by (simp add: collectEnterNodes_def fold_concat_lists fold_map comp_def)

lemma affectedPath_iff:
  assumes "length lcaPath = lcaIndex"
  shows "affectedPath lcaIndex lcaPath p \<longleftrightarrow> lcaIndex \<le> length p \<and> take lcaIndex p = lcaPath"
proof
  assume a: "affectedPath lcaIndex lcaPath p"
  then have len: "lcaIndex \<le> length p"
    by (simp add: affectedPath_def)
  from a len have "\<forall>i < lcaIndex. p ! i = lcaPath ! i"
    by (auto simp: affectedPath_def sliceEvery_def list_all_iff min_def)
  with len assms have "take lcaIndex p = lcaPath"
    by (intro nth_equalityI) auto
  with len show "lcaIndex \<le> length p \<and> take lcaIndex p = lcaPath" by simp
next
  assume "lcaIndex \<le> length p \<and> take lcaIndex p = lcaPath"
  then have len: "lcaIndex \<le> length p" and eq: "take lcaIndex p = lcaPath" by auto
  have "\<forall>i < lcaIndex. p ! i = lcaPath ! i"
    using eq by (metis nth_take)
  with len assms show "affectedPath lcaIndex lcaPath p"
    by (auto simp: affectedPath_def sliceEvery_def list_all_iff min_def)
qed

lemma visits_activeBelow:
  assumes len: "length lcaPath = lcaIndex"
  shows "set (concat (map (\<lambda>p. map (\<lambda>i. take i p) [Suc lcaIndex..<Suc (length p)])
                          (filter (affectedPath lcaIndex lcaPath) (stateValueToPaths v))))
         = activeBelow lcaPath v"
proof (intro set_eqI iffI)
  fix q
  assume "q \<in> set (concat (map (\<lambda>p. map (\<lambda>i. take i p) [Suc lcaIndex..<Suc (length p)])
                          (filter (affectedPath lcaIndex lcaPath) (stateValueToPaths v))))"
  then obtain p i where p: "p \<in> set (stateValueToPaths v)"
    and aff: "affectedPath lcaIndex lcaPath p"
    and i: "lcaIndex < i" "i \<le> length p" and q: "q = take i p"
    by (auto simp del: upt_Suc simp: less_Suc_eq_le Suc_le_eq)
  from aff len have tk: "take lcaIndex p = lcaPath"
    by (simp add: affectedPath_iff)
  have "prefix q p"
    unfolding q by (rule take_is_prefix)
  moreover have "prefix lcaPath q"
  proof -
    have "take lcaIndex q = lcaPath"
      using tk i unfolding q by (simp add: min_def)
    then show ?thesis
      by (metis take_is_prefix)
  qed
  moreover have "length lcaPath < length q"
    using len i unfolding q by simp
  ultimately show "q \<in> activeBelow lcaPath v"
    using p by (auto simp: activeBelow_def in_set_prefixes strict_prefix_def)
next
  fix q
  assume "q \<in> activeBelow lcaPath v"
  then obtain p where p: "p \<in> set (stateValueToPaths v)" and qp: "prefix q p"
    and lq: "strict_prefix lcaPath q"
    by (auto simp: activeBelow_def in_set_prefixes)
  from lq have l1: "length lcaPath < length q"
    by (rule prefix_length_less)
  from qp have l2: "length q \<le> length p"
    by (rule prefix_length_le)
  from qp have q: "q = take (length q) p"
    by (metis append_eq_conv_conj prefix_def)
  from lq qp have "prefix lcaPath p"
    by (auto simp: strict_prefix_def)
  then have "take lcaIndex p = lcaPath"
    using len by (metis append_eq_conv_conj prefix_def)
  with l1 l2 len have "affectedPath lcaIndex lcaPath p"
    by (simp add: affectedPath_iff)
  moreover have "length q \<in> set [Suc lcaIndex..<Suc (length p)]"
    using l1 l2 len by auto
  ultimately show "q \<in> set (concat (map (\<lambda>p. map (\<lambda>i. take i p) [Suc lcaIndex..<Suc (length p)])
                          (filter (affectedPath lcaIndex lcaPath) (stateValueToPaths v))))"
    using p q by (auto intro!: bexI [of _ p] image_eqI [of _ _ "length q"])
qed

lemma visits_activeBelow_rev:
  assumes len: "length lcaPath = lcaIndex"
  shows "set (concat (map (\<lambda>p. map (\<lambda>i. take i p) (rev [Suc lcaIndex..<Suc (length p)]))
                          (filter (affectedPath lcaIndex lcaPath) (stateValueToPaths v))))
         = activeBelow lcaPath v"
proof -
  have "set (concat (map (\<lambda>p. map (\<lambda>i. take i p) (rev [Suc lcaIndex..<Suc (length p)]))
                          (filter (affectedPath lcaIndex lcaPath) (stateValueToPaths v))))
        = set (concat (map (\<lambda>p. map (\<lambda>i. take i p) [Suc lcaIndex..<Suc (length p)])
                          (filter (affectedPath lcaIndex lcaPath) (stateValueToPaths v))))"
    by (simp add: rev_map [symmetric])
  then show ?thesis
    using visits_activeBelow [OF len] by simp
qed

lemma activeBelow_inj:
  assumes "dotFree v"
  shows "inj_on join_dot (activeBelow lcaPath v)"
proof (rule inj_onI)
  fix q r
  assume q: "q \<in> activeBelow lcaPath v" and r: "r \<in> activeBelow lcaPath v"
    and eq: "join_dot q = join_dot r"
  have ok: "s \<noteq> [] \<and> (\<forall>name \<in> set s. CHR ''.'' \<notin> set name)" if "s \<in> activeBelow lcaPath v" for s
  proof -
    from that obtain p where p: "p \<in> set (stateValueToPaths v)" and sp: "prefix s p"
      and ls: "strict_prefix lcaPath s"
      by (auto simp: activeBelow_def in_set_prefixes)
    from ls have "s \<noteq> []" by auto
    moreover from sp have "set s \<subseteq> set p"
      by (rule set_mono_prefix)
    ultimately show ?thesis
      using assms p by (auto simp: dotFree_def)
  qed
  from ok [OF q] ok [OF r] eq show "q = r"
    by (intro join_dot_inj) auto
qed

lemma distinct_map_sort_key: "distinct (map f (sort_key k xs)) = distinct (map f xs)"
  by (simp add: distinct_map)

lemma nodesToExitOf_set:
  assumes "lcaIndex \<le> length fromPath" and "dotFree v"
  shows "set (nodesToExitOf machine lcaIndex fromPath (stateValueToPaths v))
           = {(q, n). q \<in> activeBelow (take lcaIndex fromPath) v \<and> getStateNodeByPath machine q = Some n}
       \<and> distinct (map fst (nodesToExitOf machine lcaIndex fromPath (stateValueToPaths v)))"
proof -
  have len: "length (take lcaIndex fromPath) = lcaIndex"
    using assms(1) by simp
  have inj: "inj_on join_dot
               ({} \<union> set (concat (map (\<lambda>p. map (\<lambda>i. take i p) (rev [Suc lcaIndex..<Suc (length p)]))
                          (filter (affectedPath lcaIndex (take lcaIndex fromPath)) (stateValueToPaths v)))))"
    unfolding visits_activeBelow_rev [OF len] using activeBelow_inj [OF assms(2)] by simp
  from fold_visitNode_set [OF inj, of "([], [])" machine]
  show ?thesis
    unfolding nodesToExitOf_def Let_def sortDeepestFirst_def collectExitNodes_fold
              distinct_map_sort_key set_sort visits_activeBelow_rev [OF len]
    by simp
qed

lemma nodesToEnterOf_set:
  assumes "lcaIndex \<le> length fromPath" and "dotFree v"
  shows "set (nodesToEnterOf machine lcaIndex fromPath (stateValueToPaths v))
           = {(q, n). q \<in> activeBelow (take lcaIndex fromPath) v \<and> getStateNodeByPath machine q = Some n}
       \<and> distinct (map fst (nodesToEnterOf machine lcaIndex fromPath (stateValueToPaths v)))"
proof -
  have len: "length (take lcaIndex fromPath) = lcaIndex"
    using assms(1) by simp
  have inj: "inj_on join_dot
               ({} \<union> set (concat (map (\<lambda>p. map (\<lambda>i. take i p) [Suc lcaIndex..<Suc (length p)])
                          (filter (affectedPath lcaIndex (take lcaIndex fromPath)) (stateValueToPaths v)))))"
    unfolding visits_activeBelow [OF len] using activeBelow_inj [OF assms(2)] by simp
  from fold_visitNode_set [OF inj, of "([], [])" machine]
  show ?thesis
    unfolding nodesToEnterOf_def Let_def sortShallowestFirst_def collectEnterNodes_fold
              distinct_map_sort_key set_sort visits_activeBelow [OF len]
    by simp
qed

lemma commonPrefixLength_le: "commonPrefixLength xs ys \<le> length xs"
  by (induction xs ys rule: commonPrefixLength.induct) auto

lemma lcaIndexOf_le: "lcaIndexOf fromPath fullTargetPath \<le> length fromPath"
  using commonPrefixLength_le [of fromPath fullTargetPath]
  by (simp add: lcaIndexOf_def Let_def)

text \<open>
  C3 (amended). A transition with a target is selected at an active node and applied; no
  state name on the active paths before the transition or on the paths of the resolved target
  contains a dot; and the nodes active strictly below the LCA after the transition are those
  of the resolved target, that is, completing the parallel states added none there. Then
  \<^verbatim>\<open>nodesToExit\<close> holds, each once, exactly the nodes that were active strictly below the LCA
  before the transition, in order of non-increasing path length; \<^verbatim>\<open>nodesToEnter\<close> holds,
  each once, exactly the nodes that are active strictly below the LCA after the transition, in
  order of non-decreasing path length; and the context and the effects returned are those of
  running, in one sequence on the one context, the exit actions of the former in that order,
  then the transition's own actions in list order, then the entry actions of the latter in
  that order.
\<close>

theorem C3_action_order:
  assumes "firstTransition machine (stateValueToPaths stateValue) event ctx
           = Some (transition, fromPath)"
    and "truthy (target transition)"
    and "computeTransition depth machine stateValue ctx event historyValue = Some result"
    and "resolveTarget depth machine (fullTargetPathOf machine transition fromPath) historyValue
           = Some nextStateValue"
    and "lcaPath = take (lcaIndexOf fromPath (fullTargetPathOf machine transition fromPath)) fromPath"
    and "activeBelow lcaPath (nextState result) = activeBelow lcaPath nextStateValue"
    and "dotFree stateValue" and "dotFree nextStateValue"
  shows "let lcaIndex = lcaIndexOf fromPath (fullTargetPathOf machine transition fromPath);
             nodesToExit = nodesToExitOf machine lcaIndex fromPath (stateValueToPaths stateValue);
             nodesToEnter = nodesToEnterOf machine lcaIndex fromPath (stateValueToPaths nextStateValue);
             run = executeActions
                     (concat (map (\<lambda>n. node_exit (snd n)) nodesToExit)
                      @ actions transition
                      @ concat (map (\<lambda>n. node_entry (snd n)) nodesToEnter))
                     ctx event (implementations machine)
         in set nodesToExit
              = {(path, node). path \<in> activeBelow lcaPath stateValue
                               \<and> getStateNodeByPath machine path = Some node}
          \<and> set nodesToEnter
              = {(path, node). path \<in> activeBelow lcaPath (nextState result)
                               \<and> getStateNodeByPath machine path = Some node}
          \<and> distinct (map fst nodesToExit)
          \<and> distinct (map fst nodesToEnter)
          \<and> sorted_wrt (\<lambda>a b. length (fst a) \<ge> length (fst b)) nodesToExit
          \<and> sorted_wrt (\<lambda>a b. length (fst a) \<le> length (fst b)) nodesToEnter
          \<and> nextContext result = fst run
          \<and> effects result = Some (snd run)"
proof -
  define lcaIndex where "lcaIndex = lcaIndexOf fromPath (fullTargetPathOf machine transition fromPath)"
  define nodesToExit where
    "nodesToExit = nodesToExitOf machine lcaIndex fromPath (stateValueToPaths stateValue)"
  define nodesToEnter where
    "nodesToEnter = nodesToEnterOf machine lcaIndex fromPath (stateValueToPaths nextStateValue)"
  have le: "lcaIndex \<le> length fromPath"
    unfolding lcaIndex_def by (rule lcaIndexOf_le)
  have lp: "lcaPath = take lcaIndex fromPath"
    using assms(5) by (simp add: lcaIndex_def)
  from assms(1,3) have app: "applyTransition depth machine stateValue ctx event historyValue
            (stateValueToPaths stateValue) transition fromPath = Some result"
    by (simp add: computeTransition_def)
  have exits: "set nodesToExit
                 = {(path, node). path \<in> activeBelow lcaPath stateValue
                                  \<and> getStateNodeByPath machine path = Some node}"
    and exitsOnce: "distinct (map fst nodesToExit)"
    using nodesToExitOf_set [OF le assms(7), of machine] by (simp_all add: nodesToExit_def lp)
  have enters: "set nodesToEnter
                 = {(path, node). path \<in> activeBelow lcaPath (nextState result)
                                  \<and> getStateNodeByPath machine path = Some node}"
    and entersOnce: "distinct (map fst nodesToEnter)"
    using nodesToEnterOf_set [OF le assms(8), of machine] assms(6)
    by (simp_all add: nodesToEnter_def lp)
  have sortedExit: "sorted_wrt (\<lambda>a b. length (fst a) \<ge> length (fst b)) nodesToExit"
    by (simp add: nodesToExit_def nodesToExitOf_def sortDeepestFirst_sorted)
  have sortedEnter: "sorted_wrt (\<lambda>a b. length (fst a) \<le> length (fst b)) nodesToEnter"
    by (simp add: nodesToEnter_def nodesToEnterOf_def sortShallowestFirst_sorted)
  from app assms(4) have ran:
    "nextContext result = fst (executeActions
                         (concat (map (\<lambda>n. node_exit (snd n)) nodesToExit)
                          @ actions transition
                          @ concat (map (\<lambda>n. node_entry (snd n)) nodesToEnter))
                         ctx event (implementations machine))
     \<and> effects result = Some (snd (executeActions
                         (concat (map (\<lambda>n. node_exit (snd n)) nodesToExit)
                          @ actions transition
                          @ concat (map (\<lambda>n. node_entry (snd n)) nodesToEnter))
                         ctx event (implementations machine)))"
    unfolding nodesToExit_def nodesToEnter_def lcaIndex_def
    by (auto simp: applyTransition_def Let_def runActionLists_concat executeActions_append
             split: option.splits)
  from exits enters exitsOnce entersOnce sortedExit sortedEnter ran show ?thesis
    unfolding Let_def nodesToExit_def nodesToEnter_def lcaIndex_def by (intro conjI) simp_all
qed

text \<open>
  On \<open>orderMachine\<close> in \<^verbatim>\<open>parent.child1\<close>, \<^verbatim>\<open>EXIT\<close> exits \<^verbatim>\<open>child1\<close> and \<^verbatim>\<open>parent\<close>,
  runs the two actions of the transition and enters the parallel state \<^verbatim>\<open>done\<close>, its two
  regions and their initial children: the two exit actions, the two transition actions and the
  five entry actions are logged in that order.
\<close>

theorem C3_action_order_witness:
  "computeTransition 0 orderMachine (Obj [(''parent'', Str ''child1'')]) [] (plainEvent ''EXIT'') []
     = Some orderResult
   \<and> map fst (nodesToExitOf orderMachine 0 [''parent'', ''child1'']
                (stateValueToPaths (Obj [(''parent'', Str ''child1'')])))
     = [[''parent'', ''child1''], [''parent'']]
   \<and> map fst (nodesToEnterOf orderMachine 0 [''parent'', ''child1'']
                (stateValueToPaths (nextState orderResult)))
     = [[''done''], [''done'', ''left''], [''done'', ''right''],
        [''done'', ''left'', ''l1''], [''done'', ''right'', ''r1'']]
   \<and> set (nodesToExitOf orderMachine 0 [''parent'', ''child1'']
            (stateValueToPaths (Obj [(''parent'', Str ''child1'')])))
     = {(path, node). path \<in> activeBelow [] (Obj [(''parent'', Str ''child1'')])
                      \<and> getStateNodeByPath orderMachine path = Some node}
   \<and> set (nodesToEnterOf orderMachine 0 [''parent'', ''child1'']
            (stateValueToPaths (nextState orderResult)))
     = {(path, node). path \<in> activeBelow [] (nextState orderResult)
                      \<and> getStateNodeByPath orderMachine path = Some node}
   \<and> activeBelow [] (Obj [(''parent'', Str ''child1'')]) = {[''parent''], [''parent'', ''child1'']}
   \<and> activeBelow [] (nextState orderResult)
     = {[''done''], [''done'', ''left''], [''done'', ''left'', ''l1''],
        [''done'', ''right''], [''done'', ''right'', ''r1'']}
   \<and> nextContext orderResult
     = [''exit:child1'', ''exit:parent'', ''transition:first'', ''transition:second'',
        ''enter:done'', ''enter:left'', ''enter:right'', ''enter:l1'', ''enter:r1'']"
proof -
  have sel: "firstTransition orderMachine (stateValueToPaths (Obj [(''parent'', Str ''child1'')]))
               (plainEvent ''EXIT'') []
             = Some (orderExit, [''parent'', ''child1''])"
    by (simp add: findTransitionInPath_def getStateNodeByPath_def getChild_def orderMachine_def
                  alwaysCandidate_def onCandidate_def afterCandidate_def readDefinition_def
                  plainEvent_def findValidTransition_def normalizeTransitionDefinition_def
                  evaluateGuard_def orderExit_def)
  have tgt: "truthy (target orderExit)"
    by (simp add: orderExit_def)
  have res: "computeTransition 0 orderMachine (Obj [(''parent'', Str ''child1'')]) []
               (plainEvent ''EXIT'') [] = Some orderResult"
    by code_simp
  have full: "fullTargetPathOf orderMachine orderExit [''parent'', ''child1''] = [''done'']"
    by code_simp
  have lca: "lcaIndexOf [''parent'', ''child1''] [''done''] = 0"
    by (simp add: lcaIndexOf_def)
  have nxt: "nextState orderResult = Obj [(''done'', Obj [(''left'', Str ''l1''), (''right'', Str ''r1'')])]"
    by (simp add: orderResult_def)
  have rt: "resolveTarget 0 orderMachine (fullTargetPathOf orderMachine orderExit [''parent'', ''child1'']) []
            = Some (nextState orderResult)"
    unfolding full nxt by code_simp
  have lp: "[] = take (lcaIndexOf [''parent'', ''child1'']
                         (fullTargetPathOf orderMachine orderExit [''parent'', ''child1'']))
                      [''parent'', ''child1'']"
    by (simp add: full lca)
  have same: "activeBelow [] (nextState orderResult) = activeBelow [] (nextState orderResult)"
    by simp
  have df1: "dotFree (Obj [(''parent'', Str ''child1'')])"
    by (simp add: dotFree_def)
  have df2: "dotFree (nextState orderResult)"
    by (simp add: dotFree_def nxt)
  have exits: "map fst (nodesToExitOf orderMachine 0 [''parent'', ''child1'']
                (stateValueToPaths (Obj [(''parent'', Str ''child1'')])))
     = [[''parent'', ''child1''], [''parent'']]"
    by code_simp
  have enters: "map fst (nodesToEnterOf orderMachine 0 [''parent'', ''child1'']
                (stateValueToPaths (nextState orderResult)))
     = [[''done''], [''done'', ''left''], [''done'', ''right''],
        [''done'', ''left'', ''l1''], [''done'', ''right'', ''r1'']]"
    unfolding nxt by code_simp
  have before: "activeBelow [] (Obj [(''parent'', Str ''child1'')]) = {[''parent''], [''parent'', ''child1'']}"
    by (auto simp: activeBelow_def)
  have after: "activeBelow [] (nextState orderResult)
     = {[''done''], [''done'', ''left''], [''done'', ''left'', ''l1''],
        [''done'', ''right''], [''done'', ''right'', ''r1'']}"
    unfolding nxt by (auto simp: activeBelow_def)
  have ctx: "nextContext orderResult
     = [''exit:child1'', ''exit:parent'', ''transition:first'', ''transition:second'',
        ''enter:done'', ''enter:left'', ''enter:right'', ''enter:l1'', ''enter:r1'']"
    by (simp add: orderResult_def)
  from C3_action_order [OF sel tgt res rt lp same df1 df2]
  have "set (nodesToExitOf orderMachine 0 [''parent'', ''child1'']
            (stateValueToPaths (Obj [(''parent'', Str ''child1'')])))
     = {(path, node). path \<in> activeBelow [] (Obj [(''parent'', Str ''child1'')])
                      \<and> getStateNodeByPath orderMachine path = Some node}
   \<and> set (nodesToEnterOf orderMachine 0 [''parent'', ''child1'']
            (stateValueToPaths (nextState orderResult)))
     = {(path, node). path \<in> activeBelow [] (nextState orderResult)
                      \<and> getStateNodeByPath orderMachine path = Some node}"
    unfolding Let_def full lca by blast
  with res exits enters before after ctx show ?thesis
    by (simp only: simp_thms)
qed

text \<open>
  C3 (as stated, refuted). On \<open>exitMachine\<close> the transition selected for \<^verbatim>\<open>EXIT\<close> has a
  target and exits five nodes; the leaves of the two regions have the same path length, as
  have the two regions, so the path lengths in execution order are 3, 3, 2, 2, 1: deepest
  first, but not strictly decreasing.
\<close>

theorem C3_parallel_exit_counterexample:
  "map_option (\<lambda>found. (target (fst found), snd found))
     (firstTransition exitMachine (stateValueToPaths (getInitialStateValue exitMachine))
        (plainEvent ''EXIT'') []) = Some (Some ''outside'', [''parallel''])
   \<and> map (length \<circ> fst)
         (nodesToExitOf exitMachine 0 [''parallel''] (stateValueToPaths (getInitialStateValue exitMachine)))
       = [3, 3, 2, 2, 1]
   \<and> map_option nextContext
         (computeTransition 0 exitMachine (getInitialStateValue exitMachine) [] (plainEvent ''EXIT'') [])
       = Some [''region1.a:exit'', ''region2.b:exit'', ''region1:exit'', ''region2:exit'', ''parallel:exit'']
   \<and> \<not> sorted_wrt (>) [3, 3, 2, 2, 1 :: nat]"
proof -
  have "map_option (\<lambda>found. (target (fst found), snd found))
     (firstTransition exitMachine (stateValueToPaths (getInitialStateValue exitMachine))
        (plainEvent ''EXIT'') []) = Some (Some ''outside'', [''parallel''])"
    by code_simp
  moreover have "map (length \<circ> fst)
         (nodesToExitOf exitMachine 0 [''parallel''] (stateValueToPaths (getInitialStateValue exitMachine)))
       = [3, 3, 2, 2, 1]"
    by code_simp
  moreover have "map_option nextContext
         (computeTransition 0 exitMachine (getInitialStateValue exitMachine) [] (plainEvent ''EXIT'') [])
       = Some [''region1.a:exit'', ''region2.b:exit'', ''region1:exit'', ''region2:exit'', ''parallel:exit'']"
    by code_simp
  ultimately show ?thesis by simp
qed

text \<open>
  Outside the conditions of the statement. On \<open>orderMachine\<close> the event \<^verbatim>\<open>DEEP\<close> targets
  \<^verbatim>\<open>done.right.r1\<close>, inside one region of the parallel state: the region \<^verbatim>\<open>left\<close> and its
  child \<^verbatim>\<open>l1\<close> are added to the state value by \<^verbatim>\<open>completeStateValue\<close>, after the entry
  actions ran, and their entry actions are not run.
\<close>

lemma region_added_by_completion:
  "map_option (\<lambda>result. (nextState result, nextContext result))
     (computeTransition 0 orderMachine (Obj [(''parent'', Str ''child1'')]) [] (plainEvent ''DEEP'') [])
   = Some (Obj [(''done'', Obj [(''right'', Str ''r1''), (''left'', Str ''l1'')])],
           [''exit:child1'', ''exit:parent'', ''enter:done'', ''enter:right'', ''enter:r1''])"
  by code_simp

text \<open>
  A transition of the root-level \<^verbatim>\<open>on\<close> map is applied by another branch, which runs the
  exit actions path by path: with \<^verbatim>\<open>RESET\<close> handled at the root of \<open>exitMachine\<close>, the exit
  action of \<^verbatim>\<open>parallel\<close> runs once for each region.
\<close>

lemma root_transition_exits_path_by_path:
  "map_option nextContext
     (computeTransition 0
        (exitMachine\<lparr>config := (config exitMachine)\<lparr>cfg_on := Some [(''RESET'', goTo ''outside'')]\<rparr>\<rparr>)
        (getInitialStateValue exitMachine) [] (plainEvent ''RESET'') [])
   = Some [''region1.a:exit'', ''region1:exit'', ''parallel:exit'',
           ''region2.b:exit'', ''region2:exit'', ''parallel:exit'']"
  by code_simp

text \<open>
  The source keys its sets of visited nodes by the dotted path, which two paths share when
  a state name contains a dot.
\<close>

lemma dotted_name_shares_key: "join_dot [''p'', ''a.b''] = join_dot [''p'', ''a'', ''b'']"
  by simp

section \<open>Self-transitions\<close>

subsection \<open>Values below a path\<close>








subsection \<open>Merging values below a path\<close>










subsection \<open>Resolving a node without history\<close>






subsection \<open>Dotted strings\<close>







subsection \<open>Visiting nodes\<close>





subsection \<open>Where a transition is found\<close>




subsection \<open>The source of a self-transition is exited and entered\<close>














section \<open>Restoring history\<close>

text \<open>
  C5. On \<open>historyMachine\<close> the events \<^verbatim>\<open>NEXT\<close>, \<^verbatim>\<open>DEEPER\<close>, \<^verbatim>\<open>EXIT\<close> leave
  \<^verbatim>\<open>parent\<close> with the snapshot \<^verbatim>\<open>{b: "b2"}\<close> stored. \<^verbatim>\<open>RETURN\<close> through the shallow
  history node then yields the single active path \<^verbatim>\<open>parent.b\<close>: it ends at \<^verbatim>\<open>b\<close>, a
  compound node whose \<^verbatim>\<open>initial\<close> is \<^verbatim>\<open>b1\<close>, and no atomic state is active. The kept
  child is wrapped in the parent's path as it is; resolving it, as the branches of
  \<^verbatim>\<open>recursiveResolve\<close> for a default target and for the parent's \<^verbatim>\<open>initial\<close> do through
  \<^verbatim>\<open>resolveTarget\<close>, gives \<^verbatim>\<open>parent.b.b1\<close>.
\<close>

theorem C5_shallow_history_child_not_resolved:
  "map_option (\<lambda>a. (currentState a, map_of (actorHistory a) ''parent''))
     (Option.bind (start 0 historyMachine (createActor historyMachine))
        (sendAll 0 historyMachine [plainEvent ''NEXT'', plainEvent ''DEEPER'', plainEvent ''EXIT'']))
   = Some (Str ''outside'', Some (Obj [(''b'', Str ''b2'')]))
   \<and> map_option (\<lambda>a. stateValueToPaths (currentState a))
     (Option.bind (start 0 historyMachine (createActor historyMachine))
        (sendAll 0 historyMachine
           [plainEvent ''NEXT'', plainEvent ''DEEPER'', plainEvent ''EXIT'', plainEvent ''RETURN'']))
   = Some [[''parent'', ''b'']]
   \<and> map_option (\<lambda>node. (node_initial node, map_option (map fst) (node_states node)))
       (getStateNodeByPath historyMachine [''parent'', ''b''])
   = Some (Some ''b1'', Some [''b1'', ''b2''])
   \<and> map_option stateValueToPaths (resolveTarget 0 historyMachine [''parent'', ''b''] [])
   = Some [[''parent'', ''b'', ''b1'']]"
  by code_simp

section \<open>The eventless closure\<close>




end
